theory Spec2Isabelle
  imports Main "HOL-Library.List_Lexorder" "HOL-Library.Char_ord" "HOL-Library.Product_Lexorder"
begin

section \<open>Data model\<close>

text \<open>
  \<^verbatim>\<open>users/entities/user.entity.ts\<close>: the two enums and the \<^verbatim>\<open>User\<close> entity. Column
  \<^verbatim>\<open>id\<close> is named \<open>user_id\<close> here (\<open>id\<close> is HOL's identity function). Dates are seconds
  on a clock, nullable columns are options. \<^verbatim>\<open>TenantBaseEntity\<close> is not among the sources:
  \<open>tenant_id\<close>, \<open>created_at\<close>, \<open>updated_at\<close> and the soft-delete column \<open>deleted_at\<close> stand
  for it. Modelled from the spec: every principal has a \<open>tenant_id\<close>, so the column is
  required and has no default. \<open>refresh_record\<close> is the field the auth service reads as
  \<^verbatim>\<open>user.refreshToken\<close>.
\<close>

datatype UserRole = SUPER_ADMIN | ADMIN | MANAGER | EMPLOYEE | VIEWER

datatype UserStatus = ACTIVE | INACTIVE | PENDING | SUSPENDED

record User =
  user_id :: nat
  tenant_id :: nat
  email :: string
  password_hash :: string
  first_name :: string
  last_name :: string
  role :: UserRole
  status :: UserStatus
  phone :: "string option"
  avatar_url :: "string option"
  last_login_at :: "nat option"
  password_reset_token :: "string option"
  password_reset_expires_at :: "nat option"
  permissions :: "string list option"
  department :: "string option"
  position :: "string option"
  date_of_birth :: "string option"
  hire_date :: "string option"
  employee_id :: "string option"
  preferences :: "string option"
  bio :: "string option"
  created_at :: nat
  updated_at :: nat
  updated_by :: "nat option"
  deleted_at :: "nat option"
  refresh_record :: "string option"

text \<open>The table of users with the sequence that generates primary keys.\<close>

record Store =
  rows :: "User list"
  next_id :: nat

text \<open>
  The request the request-scoped \<^verbatim>\<open>UsersService\<close> is constructed with:
  \<^verbatim>\<open>{ tenantId: number; user?: { id: number; role?: string } }\<close>.
\<close>

record ReqUser =
  req_user_id :: nat
  req_user_role :: "string option"

record Request =
  tenantId :: nat
  user :: "ReqUser option"

text \<open>
  The exceptions of \<^verbatim>\<open>@nestjs/common\<close> the services throw, the repository's
  \<^verbatim>\<open>QueryFailedError\<close> for a statement the database refuses, and a plain \<^verbatim>\<open>Error\<close>.
\<close>

datatype error =
    NotFoundException string
  | ConflictException string
  | BadRequestException string
  | ForbiddenException string
  | UnauthorizedException string
  | QueryFailedError
  | Error string

text \<open>
  \<^verbatim>\<open>users/dto/create-user.dto.ts\<close>. \<^verbatim>\<open>UpdateUserDto\<close> and \<^verbatim>\<open>ChangePasswordDto\<close> are
  not among the sources; the first is taken as the optional fields of \<^verbatim>\<open>CreateUserDto\<close>
  without the password, the second as the two fields \<^verbatim>\<open>changePassword\<close> destructures.
\<close>

record CreateUserDto =
  c_email :: string
  c_password :: string
  c_first_name :: string
  c_last_name :: string
  c_role :: "UserRole option"
  c_status :: "UserStatus option"
  c_phone :: "string option"
  c_avatar_url :: "string option"
  c_permissions :: "string list option"
  c_department :: "string option"
  c_position :: "string option"
  c_date_of_birth :: "string option"
  c_hire_date :: "string option"
  c_employee_id :: "string option"
  c_bio :: "string option"

record UpdateUserDto =
  u_email :: "string option"
  u_first_name :: "string option"
  u_last_name :: "string option"
  u_role :: "UserRole option"
  u_status :: "UserStatus option"
  u_phone :: "string option"
  u_avatar_url :: "string option"
  u_permissions :: "string list option"
  u_department :: "string option"
  u_position :: "string option"
  u_date_of_birth :: "string option"
  u_hire_date :: "string option"
  u_employee_id :: "string option"
  u_bio :: "string option"

record ChangePasswordDto =
  current_password :: string
  new_password :: string

text \<open>\<^verbatim>\<open>users/dto/user-query.dto.ts\<close>.\<close>

datatype SortOrder = ASC | DESC

record UserQueryDto =
  q_page :: "int option"
  q_limit :: "int option"
  q_search :: "string option"
  q_role :: "UserRole option"
  q_status :: "UserStatus option"
  q_department :: "string option"
  q_sort_by :: "string option"
  q_sort_order :: "SortOrder option"

text \<open>
  The object literal \<^verbatim>\<open>findAll\<close> builds for each user, and the paginated response
  (\<^verbatim>\<open>users/dto/paginated-users-response.dto.ts\<close>).
\<close>

record UserResponse =
  r_id :: nat
  r_first_name :: string
  r_last_name :: string
  r_email :: string
  r_role :: UserRole
  r_status :: UserStatus
  r_department :: "string option"
  r_employee_id :: "string option"
  r_created_at :: nat
  r_updated_at :: nat
  r_last_login_at :: "nat option"
  r_full_name :: string
  r_is_active :: bool
  r_password_hash :: string
  r_password_reset_token :: "string option"
  r_password_reset_expires_at :: "nat option"

record PaginatedUsersResponse =
  data :: "UserResponse list"
  total :: int
  page :: int
  limit :: int
  total_pages :: int
  has_next :: bool
  has_prev :: bool

section \<open>External libraries\<close>

text \<open>
  The services call bcrypt (\<^verbatim>\<open>hash\<close>, \<^verbatim>\<open>compare\<close>), the JWT library (\<^verbatim>\<open>signAsync\<close>,
  \<^verbatim>\<open>decode\<close>; \<^verbatim>\<open>verify\<close> is what the JWT guard of the other endpoints runs) and the
  database's \<^verbatim>\<open>ILIKE\<close>. They are parameters of the model. The salt bcrypt draws and the
  clock the JWT library reads are arguments: \<open>bcrypt_hash ext secret rounds salt\<close>,
  \<open>jwt_sign ext payload secret expiresIn now\<close>, \<open>jwt_verify ext token secret now\<close>;
  \<open>ilike ext value pattern\<close> is \<^verbatim>\<open>value ILIKE pattern\<close>. The entity imports bcryptjs and the
  auth service bcrypt; one pair of functions stands for both.
\<close>

record JwtPayload =
  sub :: nat
  jwt_email :: string

record JwtClaims =
  claim_sub :: "nat option"
  claim_email :: string
  iat :: nat
  exp :: nat

record ext =
  bcrypt_hash :: "string \<Rightarrow> nat \<Rightarrow> string \<Rightarrow> string"
  bcrypt_compare :: "string \<Rightarrow> string \<Rightarrow> bool"
  jwt_sign :: "JwtPayload \<Rightarrow> string \<Rightarrow> string \<Rightarrow> nat \<Rightarrow> string"
  jwt_decode :: "string \<Rightarrow> JwtClaims option"
  jwt_verify :: "string \<Rightarrow> string \<Rightarrow> nat \<Rightarrow> bool"
  ilike :: "string \<Rightarrow> string \<Rightarrow> bool"

text \<open>The configuration keys \<^verbatim>\<open>AuthService.generateTokens\<close> reads.\<close>

record Config =
  JWT_SECRET :: "string option"
  JWT_ACCESS_TOKEN_EXPIRATION :: "string option"
  JWT_REFRESH_TOKEN_EXPIRATION :: "string option"

record AuthTokens =
  accessToken :: string
  refreshToken :: string

section \<open>Strings\<close>

text \<open>
  \<^verbatim>\<open>s.startsWith(p)\<close> and \<^verbatim>\<open>s.toLowerCase()\<close>; a string is its bytes, and the letters
  lowered are the ASCII ones.
\<close>

definition startsWith :: "string \<Rightarrow> string \<Rightarrow> bool" where
  "startsWith s p = (take (length p) s = p)"

definition lower_char :: "char \<Rightarrow> char" where
  "lower_char c =
     (case map_of (zip ''ABCDEFGHIJKLMNOPQRSTUVWXYZ'' ''abcdefghijklmnopqrstuvwxyz'') c of
        None \<Rightarrow> c | Some d \<Rightarrow> d)"

definition toLowerCase :: "string \<Rightarrow> string" where
  "toLowerCase s = map lower_char s"

section \<open>The entity's hooks and the repository\<close>

text \<open>
  \<^verbatim>\<open>User.hashPassword\<close>, run \<^verbatim>\<open>@BeforeInsert\<close> and \<^verbatim>\<open>@BeforeUpdate\<close>, and
  \<^verbatim>\<open>User.validatePassword\<close>.
\<close>

definition hashPassword :: "ext \<Rightarrow> string \<Rightarrow> User \<Rightarrow> User" where
  "hashPassword e salt u =
     (if password_hash u \<noteq> [] \<and> \<not> startsWith (password_hash u) ''$2a$''
      then u\<lparr>password_hash := bcrypt_hash e (password_hash u) 12 salt\<rparr>
      else u)"

definition validatePassword :: "ext \<Rightarrow> User \<Rightarrow> string \<Rightarrow> bool" where
  "validatePassword e u password = bcrypt_compare e password (password_hash u)"

text \<open>
  The calls on \<^verbatim>\<open>Repository<User>\<close>: \<^verbatim>\<open>getOne\<close> on a query, \<^verbatim>\<open>save\<close> of a new entity
  (an insert, the key drawn from the sequence) and of a loaded one (an update by primary
  key), both after the hook; \<^verbatim>\<open>update(criteria, partial)\<close>, which runs no hook; and
  \<^verbatim>\<open>softDelete(id)\<close>. The entity declares \<^verbatim>\<open>@Index(['tenant_id', 'email'], { unique: true })\<close>:
  a \<^verbatim>\<open>save\<close> that would leave two rows with one (tenant_id, email) fails with the
  database's error and writes nothing. An insert is given the value of the column
  \<open>tenant_id\<close> apart from the entity, if the entity sets the column at all; the column is
  required, and an insert without it is refused.
\<close>

definition getOne :: "User list \<Rightarrow> User option" where
  "getOne us = (case us of [] \<Rightarrow> None | u # _ \<Rightarrow> Some u)"

definition save_new ::
  "ext \<Rightarrow> string \<Rightarrow> nat option \<Rightarrow> User \<Rightarrow> Store \<Rightarrow> (error + User) \<times> Store" where
  "save_new e salt tenant_column u st =
     (case tenant_column of
        None \<Rightarrow> (Inl QueryFailedError, st)
      | Some t \<Rightarrow>
          (let u' = (hashPassword e salt u)\<lparr>user_id := next_id st, tenant_id := t\<rparr>
           in if list_ex (\<lambda>r. tenant_id r = tenant_id u' \<and> email r = email u') (rows st)
              then (Inl QueryFailedError, st)
              else (Inr u', st\<lparr>rows := rows st @ [u'], next_id := Suc (next_id st)\<rparr>)))"

definition save :: "ext \<Rightarrow> string \<Rightarrow> User \<Rightarrow> Store \<Rightarrow> (error + User) \<times> Store" where
  "save e salt u st =
     (let u' = hashPassword e salt u
      in if list_ex (\<lambda>r. user_id r \<noteq> user_id u' \<and> tenant_id r = tenant_id u'
                          \<and> email r = email u') (rows st)
         then (Inl QueryFailedError, st)
         else (Inr u',
               st\<lparr>rows := map (\<lambda>r. if user_id r = user_id u' then u' else r) (rows st)\<rparr>))"

definition repo_update :: "(User \<Rightarrow> bool) \<Rightarrow> (User \<Rightarrow> User) \<Rightarrow> Store \<Rightarrow> Store" where
  "repo_update criteria partial st =
     st\<lparr>rows := map (\<lambda>r. if criteria r then partial r else r) (rows st)\<rparr>"

definition softDelete :: "nat \<Rightarrow> nat \<Rightarrow> Store \<Rightarrow> Store" where
  "softDelete now i st =
     st\<lparr>rows := map (\<lambda>r. if user_id r = i then r\<lparr>deleted_at := Some now\<rparr> else r) (rows st)\<rparr>"

text \<open>
  A criterion \<^verbatim>\<open>tenant: n\<close> names the relation \<^verbatim>\<open>tenant\<close> of the entity, not its column:
  given a number, the repository compares \<open>tenant_id\<close> with NULL, which is true of no row.
\<close>

definition tenant_relation_is :: "User \<Rightarrow> nat \<Rightarrow> bool" where
  "tenant_relation_is u n = False"

section \<open>UsersService\<close>

definition getTenantId :: "Request \<Rightarrow> nat" where
  "getTenantId req = tenantId req"

definition getCurrentUserId :: "Request \<Rightarrow> nat option" where
  "getCurrentUserId req = map_option req_user_id (user req)"

text \<open>
  \<^verbatim>\<open>createQueryBuilder('user').where('user.tenant_id = :tenantId')\<close>; a query builder
  leaves soft-deleted rows out.
\<close>

definition getBaseQuery :: "Request \<Rightarrow> Store \<Rightarrow> User list" where
  "getBaseQuery req st =
     filter (\<lambda>u. tenant_id u = getTenantId req \<and> deleted_at u = None) (rows st)"

text \<open>
  The entity \<^verbatim>\<open>userRepository.create({...})\<close> builds. It sets the relation property
  \<^verbatim>\<open>tenant\<close> to the number \<^verbatim>\<open>this.getTenantId()\<close> and never the column \<open>tenant_id\<close>, and it
  has no id yet: the two fields are written 0 here and neither reaches the table, the
  insert takes the id from the sequence and is given no \<open>tenant_id\<close>. The columns the DTO
  does not carry are null, the timestamps are the clock's.
\<close>

definition new_user :: "nat \<Rightarrow> CreateUserDto \<Rightarrow> User" where
  "new_user now dto =
     \<lparr> user_id = 0,
       tenant_id = 0,
       email = toLowerCase (c_email dto),
       password_hash = c_password dto,
       first_name = c_first_name dto,
       last_name = c_last_name dto,
       role = (case c_role dto of None \<Rightarrow> EMPLOYEE | Some r \<Rightarrow> r),
       status = (case c_status dto of None \<Rightarrow> PENDING | Some s \<Rightarrow> s),
       phone = c_phone dto,
       avatar_url = c_avatar_url dto,
       last_login_at = None,
       password_reset_token = None,
       password_reset_expires_at = None,
       permissions = c_permissions dto,
       department = c_department dto,
       position = c_position dto,
       date_of_birth = c_date_of_birth dto,
       hire_date = c_hire_date dto,
       employee_id = c_employee_id dto,
       preferences = None,
       bio = c_bio dto,
       created_at = now,
       updated_at = now,
       updated_by = None,
       deleted_at = None,
       refresh_record = None \<rparr>"

definition create ::
  "ext \<Rightarrow> string \<Rightarrow> nat \<Rightarrow> Request \<Rightarrow> CreateUserDto \<Rightarrow> Store \<Rightarrow> (error + User) \<times> Store" where
  "create e salt now req dto st =
     (case getOne (filter (\<lambda>u. email u = toLowerCase (c_email dto)) (getBaseQuery req st)) of
        Some existingUser \<Rightarrow> (Inl (ConflictException ''User with this email already exists''), st)
      | None \<Rightarrow> save_new e salt None (new_user now dto) st)"

definition findOne :: "Request \<Rightarrow> nat \<Rightarrow> Store \<Rightarrow> error + User" where
  "findOne req i st =
     (case getOne (filter (\<lambda>u. user_id u = i) (getBaseQuery req st)) of
        None \<Rightarrow> Inl (NotFoundException ''User not found'')
      | Some u \<Rightarrow> Inr u)"

definition findByEmail :: "Request \<Rightarrow> string \<Rightarrow> Store \<Rightarrow> User option" where
  "findByEmail req em st =
     getOne (filter (\<lambda>u. email u = toLowerCase em) (getBaseQuery req st))"

text \<open>
  \<^verbatim>\<open>Object.assign(user, {...updateUserDto, email: ..., updated_by: ...})\<close>: a field the
  DTO does not carry stays as loaded.
\<close>

definition orElse :: "'a option \<Rightarrow> 'a \<Rightarrow> 'a" where
  "orElse v old = (case v of None \<Rightarrow> old | Some x \<Rightarrow> x)"

definition orKeep :: "'a option \<Rightarrow> 'a option \<Rightarrow> 'a option" where
  "orKeep v old = (case v of None \<Rightarrow> old | Some x \<Rightarrow> Some x)"

definition assign :: "User \<Rightarrow> UpdateUserDto \<Rightarrow> nat option \<Rightarrow> User" where
  "assign u dto cur =
     u\<lparr> email := orElse (map_option toLowerCase (u_email dto)) (email u),
        first_name := orElse (u_first_name dto) (first_name u),
        last_name := orElse (u_last_name dto) (last_name u),
        role := orElse (u_role dto) (role u),
        status := orElse (u_status dto) (status u),
        phone := orKeep (u_phone dto) (phone u),
        avatar_url := orKeep (u_avatar_url dto) (avatar_url u),
        permissions := orKeep (u_permissions dto) (permissions u),
        department := orKeep (u_department dto) (department u),
        position := orKeep (u_position dto) (position u),
        date_of_birth := orKeep (u_date_of_birth dto) (date_of_birth u),
        hire_date := orKeep (u_hire_date dto) (hire_date u),
        employee_id := orKeep (u_employee_id dto) (employee_id u),
        bio := orKeep (u_bio dto) (bio u),
        updated_by := orKeep cur (updated_by u) \<rparr>"

definition update ::
  "ext \<Rightarrow> string \<Rightarrow> Request \<Rightarrow> nat \<Rightarrow> UpdateUserDto \<Rightarrow> Store \<Rightarrow> (error + User) \<times> Store" where
  "update e salt req i dto st =
     (case findOne req i st of
        Inl err \<Rightarrow> (Inl err, st)
      | Inr u \<Rightarrow>
          (if (case u_email dto of
                 None \<Rightarrow> False
               | Some em \<Rightarrow> em \<noteq> [] \<and> em \<noteq> email u \<and> findByEmail req em st \<noteq> None)
           then (Inl (ConflictException ''User with this email already exists''), st)
           else save e salt (assign u dto (getCurrentUserId req)) st))"

definition changePassword ::
  "ext \<Rightarrow> string \<Rightarrow> Request \<Rightarrow> nat \<Rightarrow> ChangePasswordDto \<Rightarrow> Store \<Rightarrow> (error + unit) \<times> Store" where
  "changePassword e salt req i dto st =
     (if Some i \<noteq> getCurrentUserId req
      then (Inl (ForbiddenException ''You can only change your own password''), st)
      else (case findOne req i st of
              Inl err \<Rightarrow> (Inl err, st)
            | Inr u \<Rightarrow>
                (if \<not> validatePassword e u (current_password dto)
                 then (Inl (BadRequestException ''Current password is incorrect''), st)
                 else (case save e salt
                              (u\<lparr>password_hash := new_password dto,
                                 updated_by := getCurrentUserId req\<rparr>) st of
                         (Inl err, st') \<Rightarrow> (Inl err, st')
                       | (Inr u', st') \<Rightarrow> (Inr (), st')))))"

definition remove :: "nat \<Rightarrow> Request \<Rightarrow> nat \<Rightarrow> Store \<Rightarrow> (error + unit) \<times> Store" where
  "remove now req i st =
     (case findOne req i st of
        Inl err \<Rightarrow> (Inl err, st)
      | Inr u \<Rightarrow>
          (if Some i = getCurrentUserId req
           then (Inl (BadRequestException ''You cannot delete your own account''), st)
           else (Inr (), softDelete now i st)))"

definition activate ::
  "ext \<Rightarrow> string \<Rightarrow> Request \<Rightarrow> nat \<Rightarrow> Store \<Rightarrow> (error + User) \<times> Store" where
  "activate e salt req i st =
     (case findOne req i st of
        Inl err \<Rightarrow> (Inl err, st)
      | Inr u \<Rightarrow>
          save e salt
            (u\<lparr>status := ACTIVE,
               updated_by := Some (orElse (getCurrentUserId req) 0)\<rparr>) st)"

definition deactivate ::
  "ext \<Rightarrow> string \<Rightarrow> Request \<Rightarrow> nat \<Rightarrow> Store \<Rightarrow> (error + User) \<times> Store" where
  "deactivate e salt req i st =
     (case findOne req i st of
        Inl err \<Rightarrow> (Inl err, st)
      | Inr u \<Rightarrow>
          (if Some i = getCurrentUserId req
           then (Inl (BadRequestException ''You cannot deactivate your own account''), st)
           else save e salt
                  (u\<lparr>status := INACTIVE,
                     updated_by := Some (orElse (getCurrentUserId req) 0)\<rparr>) st))"

definition updateLastLogin :: "nat \<Rightarrow> Request \<Rightarrow> nat \<Rightarrow> Store \<Rightarrow> Store" where
  "updateLastLogin now req i st =
     repo_update (\<lambda>u. user_id u = i \<and> tenant_relation_is u (getTenantId req))
                 (\<lambda>u. u\<lparr>last_login_at := Some now\<rparr>) st"

definition bulkActivate :: "nat \<Rightarrow> Request \<Rightarrow> nat list \<Rightarrow> Store \<Rightarrow> Store" where
  "bulkActivate now req ids st =
     repo_update (\<lambda>u. List.member ids (user_id u) \<and> tenant_relation_is u (getTenantId req))
                 (\<lambda>u. u\<lparr>status := ACTIVE,
                        updated_by := orKeep (getCurrentUserId req) (updated_by u),
                        updated_at := now\<rparr>) st"

text \<open>
  The criterion \<^verbatim>\<open>id: { $in: filteredIds } as any\<close> of \<^verbatim>\<open>bulkDeactivate\<close> is no operator
  of the repository: the statement built from it is refused by the database, so the call
  raises and updates nothing. With no id left after the filter the method does nothing.
\<close>

definition bulkDeactivate ::
  "nat \<Rightarrow> Request \<Rightarrow> nat list \<Rightarrow> Store \<Rightarrow> (error + unit) \<times> Store" where
  "bulkDeactivate now req ids st =
     (let currentUserId = getCurrentUserId req;
          filteredIds = filter (\<lambda>i. Some i \<noteq> currentUserId) ids
      in if filteredIds \<noteq> []
         then (Inl QueryFailedError, st)
         else (Inr (), st))"

text \<open>
  \<^verbatim>\<open>findAll\<close>. \<^verbatim>\<open>orderBy\<close> sorts by the column (a null \<^verbatim>\<open>last_login_at\<close> last when
  ascending); an absent \<^verbatim>\<open>sort_order\<close> is ascending. \<^verbatim>\<open>UserQueryDto\<close> bounds
  \<^verbatim>\<open>page\<close> and \<^verbatim>\<open>limit\<close> from below by 1, and \<^verbatim>\<open>Math.ceil(total / limit)\<close> is written
  for such a \<^verbatim>\<open>limit\<close>.
\<close>

definition validSortFields :: "string list" where
  "validSortFields = [''first_name'', ''last_name'', ''email'', ''created_at'', ''last_login_at'']"

definition orderBy :: "string \<Rightarrow> SortOrder option \<Rightarrow> User list \<Rightarrow> User list" where
  "orderBy sortField ord us =
     (let asc =
        (if sortField = ''first_name'' then sort_key first_name us
         else if sortField = ''last_name'' then sort_key last_name us
         else if sortField = ''email'' then sort_key email us
         else if sortField = ''last_login_at''
           then sort_key (\<lambda>u. case last_login_at u of
                                 None \<Rightarrow> (1::nat, 0::nat) | Some t \<Rightarrow> (0, t)) us
         else sort_key created_at us)
      in if ord = Some DESC then rev asc else asc)"

definition toUserDto :: "User \<Rightarrow> UserResponse" where
  "toUserDto u =
     \<lparr> r_id = user_id u,
       r_first_name = first_name u,
       r_last_name = last_name u,
       r_email = email u,
       r_role = role u,
       r_status = status u,
       r_department = department u,
       r_employee_id = employee_id u,
       r_created_at = created_at u,
       r_updated_at = updated_at u,
       r_last_login_at = last_login_at u,
       r_full_name = first_name u @ '' '' @ last_name u,
       r_is_active = (status u = ACTIVE),
       r_password_hash = password_hash u,
       r_password_reset_token = password_reset_token u,
       r_password_reset_expires_at = password_reset_expires_at u \<rparr>"

definition searchFilter :: "ext \<Rightarrow> string option \<Rightarrow> User list \<Rightarrow> User list" where
  "searchFilter e search us =
     (case search of
        None \<Rightarrow> us
      | Some s \<Rightarrow>
          (if s = [] then us
           else filter (\<lambda>u. ilike e (first_name u) (''%'' @ s @ ''%'')
                          \<or> ilike e (last_name u) (''%'' @ s @ ''%'')
                          \<or> ilike e (email u) (''%'' @ s @ ''%'')
                          \<or> (case employee_id u of
                                None \<Rightarrow> False
                              | Some x \<Rightarrow> ilike e x (''%'' @ s @ ''%''))) us))"

definition departmentFilter :: "ext \<Rightarrow> string option \<Rightarrow> User list \<Rightarrow> User list" where
  "departmentFilter e dep us =
     (case dep of
        None \<Rightarrow> us
      | Some d \<Rightarrow>
          (if d = [] then us
           else filter (\<lambda>u. case department u of
                              None \<Rightarrow> False
                            | Some x \<Rightarrow> ilike e x (''%'' @ d @ ''%'')) us))"

definition findAll_query :: "ext \<Rightarrow> Request \<Rightarrow> UserQueryDto \<Rightarrow> Store \<Rightarrow> User list" where
  "findAll_query e req queryDto st =
     (let query1 = searchFilter e (q_search queryDto) (getBaseQuery req st);
          query2 = (case q_role queryDto of
                      None \<Rightarrow> query1 | Some r \<Rightarrow> filter (\<lambda>u. role u = r) query1);
          query3 = (case q_status queryDto of
                      None \<Rightarrow> query2 | Some s \<Rightarrow> filter (\<lambda>u. status u = s) query2);
          query4 = departmentFilter e (q_department queryDto) query3;
          sortField = (if List.member validSortFields (orElse (q_sort_by queryDto) [])
                       then orElse (q_sort_by queryDto) ''created_at''
                       else ''created_at'')
      in orderBy sortField (q_sort_order queryDto) query4)"

definition findAll :: "ext \<Rightarrow> Request \<Rightarrow> UserQueryDto \<Rightarrow> Store \<Rightarrow> PaginatedUsersResponse" where
  "findAll e req queryDto st =
     (let page = orElse (q_page queryDto) 1;
          limit = orElse (q_limit queryDto) 10;
          offset = (page - 1) * limit;
          query = findAll_query e req queryDto st;
          total = int (length query);
          users = take (nat limit) (drop (nat offset) query);
          userDtos = map toUserDto users;
          total_pages = - ((- total) div limit)
      in \<lparr> data = userDtos,
           total = total,
           page = page,
           limit = limit,
           total_pages = total_pages,
           has_next = (page < total_pages),
           has_prev = (page > 1) \<rparr>)"

section \<open>AuthService and AuthController\<close>

text \<open>
  Modelled from the spec: the three methods of \<^verbatim>\<open>UsersService\<close> that \<^verbatim>\<open>AuthService\<close>
  calls and the sources do not hold. \<^verbatim>\<open>findById\<close> reads the principal by
  (tenant_id, id); \<^verbatim>\<open>updateRefreshToken\<close> overwrites the one refresh record of the
  principal, or clears it; \<^verbatim>\<open>validatePassword(secret, digest)\<close> is the hasher's
  \<^verbatim>\<open>verify\<close>, which never throws on a malformed digest and returns false instead: so it
  does for the digest \<^verbatim>\<open>undefined\<close>.
\<close>

definition findById :: "Request \<Rightarrow> nat \<Rightarrow> Store \<Rightarrow> User option" where
  "findById req i st = getOne (filter (\<lambda>u. user_id u = i) (getBaseQuery req st))"

definition users_updateRefreshToken :: "Request \<Rightarrow> nat \<Rightarrow> string option \<Rightarrow> Store \<Rightarrow> Store" where
  "users_updateRefreshToken req i h st =
     repo_update (\<lambda>u. user_id u = i \<and> tenant_id u = getTenantId req)
                 (\<lambda>u. u\<lparr>refresh_record := h\<rparr>) st"

definition users_validatePassword :: "ext \<Rightarrow> string \<Rightarrow> string option \<Rightarrow> bool" where
  "users_validatePassword e password digest =
     (case digest of None \<Rightarrow> False | Some d \<Rightarrow> bcrypt_compare e password d)"

text \<open>
  \<^verbatim>\<open>jwtService.signAsync(payload, { secret, expiresIn })\<close>: the JWT library throws when
  it is given no secret, and when the option \<^verbatim>\<open>expiresIn\<close> is passed undefined. No secret
  registered with the JWT module is modelled (the module's registration is not among the
  sources).
\<close>

definition signAsync ::
  "ext \<Rightarrow> JwtPayload \<Rightarrow> string option \<Rightarrow> string option \<Rightarrow> nat \<Rightarrow> error + string" where
  "signAsync e payload secret expiresIn now =
     (case secret of
        None \<Rightarrow> Inl (Error ''secretOrPrivateKey must have a value'')
      | Some k \<Rightarrow>
          (case expiresIn of
             None \<Rightarrow> Inl (Error ''expiresIn should be a number of seconds or string representing a timespan'')
           | Some t \<Rightarrow> Inr (jwt_sign e payload k t now)))"

definition generateTokens :: "ext \<Rightarrow> Config \<Rightarrow> nat \<Rightarrow> nat \<Rightarrow> string \<Rightarrow> error + AuthTokens" where
  "generateTokens e cfg now userId em =
     (let payload = \<lparr> sub = userId, jwt_email = em \<rparr>
      in case signAsync e payload (JWT_SECRET cfg) (JWT_ACCESS_TOKEN_EXPIRATION cfg) now of
           Inl err \<Rightarrow> Inl err
         | Inr a \<Rightarrow>
             (case signAsync e payload (JWT_SECRET cfg) (JWT_REFRESH_TOKEN_EXPIRATION cfg) now of
                Inl err \<Rightarrow> Inl err
              | Inr r \<Rightarrow> Inr \<lparr> accessToken = a, refreshToken = r \<rparr>))"

definition updateRefreshToken ::
  "ext \<Rightarrow> string \<Rightarrow> Request \<Rightarrow> nat \<Rightarrow> string \<Rightarrow> Store \<Rightarrow> Store" where
  "updateRefreshToken e salt req userId tok st =
     (let hashedRefreshToken = (if tok \<noteq> [] then Some (bcrypt_hash e tok 10 salt) else None)
      in users_updateRefreshToken req userId hashedRefreshToken st)"

text \<open>
  \<^verbatim>\<open>validateUser\<close> passes \<^verbatim>\<open>user.password\<close> to the verification. The user is what
  \<^verbatim>\<open>findByEmail\<close> returns, a \<^verbatim>\<open>User\<close> entity, which has no property of that name (its
  digest is \<^verbatim>\<open>password_hash\<close>): the read gives \<^verbatim>\<open>undefined\<close>. The result is the user
  without \<^verbatim>\<open>password\<close> and \<^verbatim>\<open>refreshToken\<close>.
\<close>

definition user_password :: "User \<Rightarrow> string option" where
  "user_password u = None"

definition validateUser :: "ext \<Rightarrow> Request \<Rightarrow> string \<Rightarrow> string \<Rightarrow> Store \<Rightarrow> User option" where
  "validateUser e req em password st =
     (case findByEmail req em st of
        None \<Rightarrow> None
      | Some u \<Rightarrow>
          (if users_validatePassword e password (user_password u)
           then Some (u\<lparr>refresh_record := None\<rparr>)
           else None))"

text \<open>
  The \<^verbatim>\<open>catch\<close> of \<^verbatim>\<open>register\<close>: a \<^verbatim>\<open>ConflictException\<close> is thrown on, anything else
  becomes one.
\<close>

definition register_catch :: "error \<Rightarrow> error" where
  "register_catch err =
     (case err of
        ConflictException m \<Rightarrow> ConflictException m
      | _ \<Rightarrow> ConflictException ''Registration failed'')"

definition register ::
  "ext \<Rightarrow> Config \<Rightarrow> nat \<Rightarrow> string \<Rightarrow> string \<Rightarrow> Request \<Rightarrow> CreateUserDto \<Rightarrow> Store
     \<Rightarrow> (error + AuthTokens) \<times> Store" where
  "register e cfg now salt salt' req registerDto st =
     (case create e salt now req registerDto st of
        (Inl err, st1) \<Rightarrow> (Inl (register_catch err), st1)
      | (Inr u, st1) \<Rightarrow>
          (case generateTokens e cfg now (user_id u) (email u) of
             Inl err \<Rightarrow> (Inl (register_catch err), st1)
           | Inr tokens \<Rightarrow>
               (Inr tokens, updateRefreshToken e salt' req (user_id u) (refreshToken tokens) st1)))"

definition login ::
  "ext \<Rightarrow> Config \<Rightarrow> nat \<Rightarrow> string \<Rightarrow> Request \<Rightarrow> User \<Rightarrow> Store \<Rightarrow> (error + AuthTokens) \<times> Store" where
  "login e cfg now salt req u st =
     (case generateTokens e cfg now (user_id u) (email u) of
        Inl err \<Rightarrow> (Inl err, st)
      | Inr tokens \<Rightarrow>
          (Inr tokens, updateRefreshToken e salt req (user_id u) (refreshToken tokens) st))"

definition refreshTokens ::
  "ext \<Rightarrow> Config \<Rightarrow> nat \<Rightarrow> string \<Rightarrow> Request \<Rightarrow> nat \<Rightarrow> string \<Rightarrow> Store
     \<Rightarrow> (error + AuthTokens) \<times> Store" where
  "refreshTokens e cfg now salt req userId tok st =
     (case findById req userId st of
        None \<Rightarrow> (Inl (UnauthorizedException ''Access Denied''), st)
      | Some u \<Rightarrow>
          (case refresh_record u of
             None \<Rightarrow> (Inl (UnauthorizedException ''Access Denied''), st)
           | Some h \<Rightarrow>
               (if h = [] then (Inl (UnauthorizedException ''Access Denied''), st)
                else if \<not> bcrypt_compare e tok h
                  then (Inl (UnauthorizedException ''Access Denied''), st)
                else (case generateTokens e cfg now (user_id u) (email u) of
                        Inl err \<Rightarrow> (Inl err, st)
                      | Inr tokens \<Rightarrow>
                          (Inr tokens,
                           updateRefreshToken e salt req (user_id u) (refreshToken tokens) st)))))"

definition logout :: "Request \<Rightarrow> nat \<Rightarrow> Store \<Rightarrow> Store" where
  "logout req userId st = users_updateRefreshToken req userId None st"

text \<open>
  \<^verbatim>\<open>AuthController.refreshTokens\<close>: the user id is read from the token with
  \<^verbatim>\<open>jwtService.decode\<close>; \<^verbatim>\<open>!decoded?.sub\<close> holds for no claims, no \<^verbatim>\<open>sub\<close> and \<^verbatim>\<open>sub\<close> 0.
  The controller throws \<^verbatim>\<open>UnauthorizedException\<close>, a name its imports do not bring in; the
  exception it names is the one modelled.
\<close>

definition controller_refreshTokens ::
  "ext \<Rightarrow> Config \<Rightarrow> nat \<Rightarrow> string \<Rightarrow> Request \<Rightarrow> string \<Rightarrow> Store
     \<Rightarrow> (error + AuthTokens) \<times> Store" where
  "controller_refreshTokens e cfg now salt req tok st =
     (case jwt_decode e tok of
        None \<Rightarrow> (Inl (UnauthorizedException ''Invalid refresh token''), st)
      | Some decoded \<Rightarrow>
          (case claim_sub decoded of
             None \<Rightarrow> (Inl (UnauthorizedException ''Invalid refresh token''), st)
           | Some s \<Rightarrow>
               (if s = 0 then (Inl (UnauthorizedException ''Invalid refresh token''), st)
                else refreshTokens e cfg now salt req s tok st)))"



section \<open>A sample instance of the libraries and a sample table\<close>

text \<open>
  The concrete runs below need the libraries as executable functions. The sample bcrypt
  writes the prefix, the rounds and the salt of a bcrypt digest and then, in place of the
  Blowfish output, the first 72 bytes of the secret, which are the bytes bcrypt reads;
  \<open>compare\<close> rejects a digest that is not of this shape. The sample JWT is the claims in
  the order the library writes them (the payload's \<^verbatim>\<open>sub\<close> and \<^verbatim>\<open>email\<close>, then \<^verbatim>\<open>iat\<close> and
  \<^verbatim>\<open>exp\<close>) followed by the signing key in place of the signature; \<open>verify\<close> checks the
  key and the expiry, \<open>decode\<close> checks neither.
\<close>

definition pad :: "nat \<Rightarrow> string \<Rightarrow> string" where
  "pad n s = take n (s @ replicate n CHR ''.'')"

definition sample_bcrypt_hash :: "string \<Rightarrow> nat \<Rightarrow> string \<Rightarrow> string" where
  "sample_bcrypt_hash s rounds salt =
     ''$2a$'' @ (if rounds = 12 then ''12'' else ''10'') @ ''$'' @ pad 22 salt @ take 72 s"

definition sample_bcrypt_compare :: "string \<Rightarrow> string \<Rightarrow> bool" where
  "sample_bcrypt_compare s h =
     (take 4 h = ''$2a$'' \<and> 29 \<le> length h \<and> drop 29 h = take 72 s)"

definition digit :: "nat \<Rightarrow> char" where
  "digit n = ''0123456789'' ! n"

definition digit_val :: "char \<Rightarrow> nat" where
  "digit_val c = length (takeWhile (\<lambda>d. d \<noteq> c) ''0123456789'')"

function show_nat :: "nat \<Rightarrow> string" where
  "show_nat n = (if n < 10 then [digit n] else show_nat (n div 10) @ [digit (n mod 10)])"
  by pat_completeness auto
termination
  by (relation "measure (\<lambda>n. n)") auto

definition read_nat :: "string \<Rightarrow> nat" where
  "read_nat s = foldl (\<lambda>a c. 10 * a + digit_val c) 0 (filter (\<lambda>c. digit_val c < 10) s)"

definition next_field :: "string \<Rightarrow> string \<times> string" where
  "next_field s = (takeWhile (\<lambda>c. c \<noteq> CHR ''.'') s, drop 1 (dropWhile (\<lambda>c. c \<noteq> CHR ''.'') s))"

definition sample_jwt_sign :: "JwtPayload \<Rightarrow> string \<Rightarrow> string \<Rightarrow> nat \<Rightarrow> string" where
  "sample_jwt_sign payload key expiresIn now =
     ''jwt.'' @ show_nat (sub payload) @ ''.'' @ jwt_email payload @ ''.'' @ show_nat now @ ''.''
       @ show_nat (now + read_nat expiresIn)
       @ ''|'' @ key"

definition sample_jwt_parse :: "string \<Rightarrow> (JwtClaims \<times> string) option" where
  "sample_jwt_parse tok =
     (case next_field tok of (f0, r0) \<Rightarrow>
      case next_field r0 of (f1, r1) \<Rightarrow>
      case next_field (rev (takeWhile (\<lambda>c. c \<noteq> CHR ''|'') r1)) of (x3, b1) \<Rightarrow>
      case next_field b1 of (x2, b2) \<Rightarrow>
        if f0 = ''jwt'' \<and> f1 \<noteq> [] \<and> x2 \<noteq> [] \<and> x3 \<noteq> []
        then Some (\<lparr> claim_sub = Some (read_nat f1), claim_email = rev b2,
                     iat = read_nat (rev x2), exp = read_nat (rev x3) \<rparr>,
                   drop 1 (dropWhile (\<lambda>c. c \<noteq> CHR ''|'') r1))
        else None)"

definition sample_jwt_decode :: "string \<Rightarrow> JwtClaims option" where
  "sample_jwt_decode tok = map_option fst (sample_jwt_parse tok)"

definition sample_jwt_verify :: "string \<Rightarrow> string \<Rightarrow> nat \<Rightarrow> bool" where
  "sample_jwt_verify tok key now =
     (case sample_jwt_parse tok of
        None \<Rightarrow> False
      | Some (c, k) \<Rightarrow> k = key \<and> now \<le> exp c)"

fun contains :: "string \<Rightarrow> string \<Rightarrow> bool" where
  "contains [] n = (n = [])"
| "contains (c # cs) n = (take (length n) (c # cs) = n \<or> contains cs n)"

definition sample_ilike :: "string \<Rightarrow> string \<Rightarrow> bool" where
  "sample_ilike v pat =
     contains (toLowerCase v) (toLowerCase (filter (\<lambda>c. c \<noteq> CHR ''%'') pat))"

definition sample_ext :: ext where
  "sample_ext =
     \<lparr> bcrypt_hash = sample_bcrypt_hash,
       bcrypt_compare = sample_bcrypt_compare,
       jwt_sign = sample_jwt_sign,
       jwt_decode = sample_jwt_decode,
       jwt_verify = sample_jwt_verify,
       ilike = sample_ilike \<rparr>"

definition sample_config :: Config where
  "sample_config =
     \<lparr> JWT_SECRET = Some ''k3y'',
       JWT_ACCESS_TOKEN_EXPIRATION = Some ''15s'',
       JWT_REFRESH_TOKEN_EXPIRATION = Some ''60s'' \<rparr>"

definition sample_user ::
  "nat \<Rightarrow> nat \<Rightarrow> string \<Rightarrow> string \<Rightarrow> UserRole \<Rightarrow> UserStatus \<Rightarrow> User" where
  "sample_user i t em pw r s =
     \<lparr> user_id = i, tenant_id = t, email = em,
       password_hash = sample_bcrypt_hash pw 12 ''NaClNaClNaClNaClNaClNa'',
       first_name = ''Sam'', last_name = ''Ple'', role = r, status = s,
       phone = None, avatar_url = None, last_login_at = None,
       password_reset_token = Some ''reset-me'', password_reset_expires_at = Some 99,
       permissions = None, department = None, position = None, date_of_birth = None,
       hire_date = None, employee_id = None, preferences = None, bio = None,
       created_at = 1, updated_at = 1, updated_by = None, deleted_at = None,
       refresh_record = None \<rparr>"

definition alice :: User where
  "alice = sample_user 1 1 ''alice@acme.io'' ''Secret1!'' ADMIN ACTIVE"

definition bob :: User where
  "bob = sample_user 2 1 ''bob@acme.io'' ''Hunter2!'' EMPLOYEE INACTIVE"

definition carol :: User where
  "carol = sample_user 3 2 ''carol@other.io'' ''Passw0rd!'' ADMIN ACTIVE"

definition sample_store :: Store where
  "sample_store = \<lparr> rows = [alice, bob, carol], next_id = 4 \<rparr>"

definition dora :: User where
  "dora = sample_user 4 1 ''dora.with.a.rather.long.mailbox.name@warehouse.subsidiary.acme.example''
            ''Tr0ub4dor&3'' MANAGER ACTIVE"

definition long_store :: Store where
  "long_store = \<lparr> rows = [alice, bob, carol, dora], next_id = 5 \<rparr>"

definition request_of :: "nat \<Rightarrow> nat \<Rightarrow> string \<Rightarrow> Request" where
  "request_of t i r =
     \<lparr> tenantId = t, user = Some \<lparr> req_user_id = i, req_user_role = Some r \<rparr> \<rparr>"

definition anonymous :: "nat \<Rightarrow> Request" where
  "anonymous t = \<lparr> tenantId = t, user = None \<rparr>"

definition sample_create_dto :: "string \<Rightarrow> string \<Rightarrow> CreateUserDto" where
  "sample_create_dto em pw =
     \<lparr> c_email = em, c_password = pw, c_first_name = ''New'', c_last_name = ''User'',
       c_role = None, c_status = None, c_phone = None, c_avatar_url = None,
       c_permissions = None, c_department = None, c_position = None,
       c_date_of_birth = None, c_hire_date = None, c_employee_id = None, c_bio = None \<rparr>"

definition sample_update_dto :: UpdateUserDto where
  "sample_update_dto =
     \<lparr> u_email = None, u_first_name = Some ''Robert'', u_last_name = None, u_role = None,
       u_status = None, u_phone = None, u_avatar_url = None, u_permissions = None,
       u_department = Some ''Stores'', u_position = None, u_date_of_birth = None,
       u_hire_date = None, u_employee_id = None, u_bio = None \<rparr>"

definition sample_query :: UserQueryDto where
  "sample_query =
     \<lparr> q_page = None, q_limit = None, q_search = None, q_role = None, q_status = None,
       q_department = None, q_sort_by = Some ''email'', q_sort_order = Some ASC \<rparr>"

text \<open>
  The sample table after \<^verbatim>\<open>AuthService.login\<close> has run for alice at time 5, and the
  table with dora, whose email is 70 bytes long, after it has run for her.
\<close>

definition logged_in_store :: Store where
  "logged_in_store =
     snd (login sample_ext sample_config 5 ''NaCl'' (anonymous 1) alice sample_store)"

definition long_logged_in_store :: Store where
  "long_logged_in_store =
     snd (login sample_ext sample_config 5 ''NaCl'' (anonymous 1) dora long_store)"

section \<open>Notions the properties are stated with\<close>

text \<open>
  The rows of the other tenants, and the table cut down to the rows of the request's
  tenant.
\<close>

definition foreign_rows :: "Request \<Rightarrow> Store \<Rightarrow> User list" where
  "foreign_rows req st = filter (\<lambda>u. tenant_id u \<noteq> tenantId req) (rows st)"

definition own_slice :: "Request \<Rightarrow> Store \<Rightarrow> Store" where
  "own_slice req st = st\<lparr>rows := filter (\<lambda>u. tenant_id u = tenantId req) (rows st)\<rparr>"

text \<open>A configuration that holds the signing secret and both lifetimes.\<close>

definition configured :: "Config \<Rightarrow> string \<Rightarrow> string \<Rightarrow> string \<Rightarrow> bool" where
  "configured cfg k ta tr =
     (JWT_SECRET cfg = Some k \<and> JWT_ACCESS_TOKEN_EXPIRATION cfg = Some ta
      \<and> JWT_REFRESH_TOKEN_EXPIRATION cfg = Some tr)"

text \<open>
  The table's primary key: the ids are distinct and below the next value of the sequence.
\<close>

definition primary_keys :: "Store \<Rightarrow> bool" where
  "primary_keys st =
     (distinct (map user_id (rows st)) \<and> list_all (\<lambda>r. user_id r < next_id st) (rows st))"

text \<open>What the hook leaves in \<open>password_hash\<close> for a password written there.\<close>

definition storedPassword :: "ext \<Rightarrow> string \<Rightarrow> string \<Rightarrow> string" where
  "storedPassword e salt pw =
     (if pw \<noteq> [] \<and> \<not> startsWith pw ''$2a$'' then bcrypt_hash e pw 12 salt else pw)"

text \<open>
  Modelled from the documentation of bcrypt: the digest is made of the first 72 bytes of
  the secret, and \<^verbatim>\<open>compare\<close> accepts a secret against a digest when the digest was made
  of the same 72 bytes. Collisions of the digest are left out of account.
\<close>

definition bcrypt_documented :: "ext \<Rightarrow> bool" where
  "bcrypt_documented e =
     (\<forall>s s' rounds salt.
        bcrypt_compare e s (bcrypt_hash e s' rounds salt) = (take 72 s = take 72 s'))"

definition is_Forbidden :: "error + 'a \<Rightarrow> bool" where
  "is_Forbidden r = (case r of Inl (ForbiddenException m) \<Rightarrow> True | _ \<Rightarrow> False)"

definition is_Conflict :: "error + 'a \<Rightarrow> bool" where
  "is_Conflict r = (case r of Inl (ConflictException m) \<Rightarrow> True | _ \<Rightarrow> False)"

definition is_Unauthorized :: "error + 'a \<Rightarrow> bool" where
  "is_Unauthorized r = (case r of Inl (UnauthorizedException m) \<Rightarrow> True | _ \<Rightarrow> False)"

section \<open>Tenant isolation of the users service\<close>

lemma rows_upd: "rows (st\<lparr>rows := x\<rparr>) = x"
  by simp

lemma getOne_mem: "getOne xs = Some u \<Longrightarrow> u \<in> set xs"
  by (cases xs) (auto simp: getOne_def)

lemma getOne_filter: "getOne (filter P xs) = Some u \<Longrightarrow> u \<in> set xs \<and> P u"
  using getOne_mem[of "filter P xs" u] by auto

lemma getBaseQuery_mem:
  "u \<in> set (getBaseQuery req st) \<longleftrightarrow>
     u \<in> set (rows st) \<and> tenant_id u = tenantId req \<and> deleted_at u = None"
  by (auto simp: getBaseQuery_def getTenantId_def)

lemma findOne_Inr:
  assumes "findOne req i st = Inr u"
  shows "u \<in> set (rows st) \<and> tenant_id u = tenantId req \<and> user_id u = i \<and> deleted_at u = None"
proof -
  from assms have "getOne (filter (\<lambda>u. user_id u = i) (getBaseQuery req st)) = Some u"
    by (auto simp: findOne_def split: option.splits)
  from getOne_filter[OF this] show ?thesis by (simp add: getBaseQuery_mem)
qed

lemma findOne_Inl: "findOne req i st = Inl err \<Longrightarrow> err = NotFoundException ''User not found''"
  by (auto simp: findOne_def split: option.splits)

lemma findByEmail_Some:
  assumes "findByEmail req em st = Some u"
  shows "u \<in> set (rows st) \<and> tenant_id u = tenantId req \<and> email u = toLowerCase em
         \<and> deleted_at u = None"
  using getOne_filter[OF assms[unfolded findByEmail_def]] by (simp add: getBaseQuery_mem)

lemma frame_map:
  "(\<And>r. r \<in> set xs \<Longrightarrow> P r \<Longrightarrow> tenant_id r = t \<and> tenant_id (f r) = t) \<Longrightarrow>
   filter (\<lambda>u. tenant_id u \<noteq> t) (map (\<lambda>r. if P r then f r else r) xs)
     = filter (\<lambda>u. tenant_id u \<noteq> t) xs"
  by (induction xs) auto

lemma distinct_key:
  "distinct (map user_id xs) \<Longrightarrow> u \<in> set xs \<Longrightarrow> r \<in> set xs \<Longrightarrow> user_id r = user_id u \<Longrightarrow> r = u"
  by (auto simp: distinct_map inj_on_def)

lemma hashPassword_keys:
  "user_id (hashPassword e salt u) = user_id u"
  "tenant_id (hashPassword e salt u) = tenant_id u"
  "email (hashPassword e salt u) = email u"
  by (simp_all add: hashPassword_def)

lemma save_cases:
  "save e salt u st = (Inl QueryFailedError, st) \<or>
   save e salt u st = (Inr (hashPassword e salt u),
      st\<lparr>rows := map (\<lambda>r. if user_id r = user_id u then hashPassword e salt u else r) (rows st)\<rparr>)"
  by (simp add: save_def Let_def hashPassword_keys)

lemma save_frame:
  assumes "distinct (map user_id (rows st))" "u0 \<in> set (rows st)" "tenant_id u0 = tenantId req"
    "user_id u = user_id u0" "tenant_id u = tenantId req"
  shows "foreign_rows req (snd (save e salt u st)) = foreign_rows req st"
proof -
  have "tenant_id r = tenantId req \<and> tenant_id (hashPassword e salt u) = tenantId req"
    if "r \<in> set (rows st)" "user_id r = user_id u" for r
  proof -
    from that assms(4) have "user_id r = user_id u0" by simp
    from distinct_key[OF assms(1) assms(2) that(1) this] assms(3,5) show ?thesis
      by (simp add: hashPassword_keys)
  qed
  then have "filter (\<lambda>u. tenant_id u \<noteq> tenantId req)
          (map (\<lambda>r. if user_id r = user_id u then (\<lambda>_. hashPassword e salt u) r else r) (rows st))
        = filter (\<lambda>u. tenant_id u \<noteq> tenantId req) (rows st)"
    by (rule frame_map)
  then have "foreign_rows req (st\<lparr>rows := map (\<lambda>r. if user_id r = user_id u
                 then hashPassword e salt u else r) (rows st)\<rparr>) = foreign_rows req st"
    by (simp only: foreign_rows_def rows_upd)
  with save_cases[of e salt u st] show ?thesis by auto
qed

lemma create_writes_nothing: "snd (create e salt now req dto st) = st"
  by (simp add: create_def save_new_def split: option.splits)

lemma assign_keys:
  "user_id (assign u dto cur) = user_id u" "tenant_id (assign u dto cur) = tenant_id u"
  by (simp_all add: assign_def)

lemma update_frame:
  assumes "distinct (map user_id (rows st))"
  shows "foreign_rows req (snd (update e salt req i dto st)) = foreign_rows req st"
proof (cases "findOne req i st")
  case (Inl err)
  then show ?thesis by (simp add: update_def)
next
  case (Inr u)
  from findOne_Inr[OF Inr] assms
  have "foreign_rows req (snd (save e salt (assign u dto (getCurrentUserId req)) st)) = foreign_rows req st"
    by (intro save_frame[where ?u0.0 = u]) (simp_all add: assign_keys)
  with Inr show ?thesis by (simp add: update_def)
qed

lemma changePassword_frame:
  assumes "distinct (map user_id (rows st))"
  shows "foreign_rows req (snd (changePassword e salt req i dto st)) = foreign_rows req st"
proof (cases "findOne req i st")
  case (Inl err)
  then show ?thesis by (simp add: changePassword_def)
next
  case (Inr u)
  from findOne_Inr[OF Inr] assms
  have "foreign_rows req (snd (save e salt (u\<lparr>password_hash := new_password dto,
           updated_by := getCurrentUserId req\<rparr>) st)) = foreign_rows req st"
    by (intro save_frame[where ?u0.0 = u]) simp_all
  with Inr show ?thesis by (auto simp add: changePassword_def split: prod.splits sum.splits)
qed

lemma activate_frame:
  assumes "distinct (map user_id (rows st))"
  shows "foreign_rows req (snd (activate e salt req i st)) = foreign_rows req st"
proof (cases "findOne req i st")
  case (Inl err)
  then show ?thesis by (simp add: activate_def)
next
  case (Inr u)
  from findOne_Inr[OF Inr] assms
  have "foreign_rows req (snd (save e salt (u\<lparr>status := ACTIVE,
           updated_by := Some (orElse (getCurrentUserId req) 0)\<rparr>) st)) = foreign_rows req st"
    by (intro save_frame[where ?u0.0 = u]) simp_all
  with Inr show ?thesis by (simp add: activate_def)
qed

lemma deactivate_frame:
  assumes "distinct (map user_id (rows st))"
  shows "foreign_rows req (snd (deactivate e salt req i st)) = foreign_rows req st"
proof (cases "findOne req i st")
  case (Inl err)
  then show ?thesis by (simp add: deactivate_def)
next
  case (Inr u)
  from findOne_Inr[OF Inr] assms
  have "foreign_rows req (snd (save e salt (u\<lparr>status := INACTIVE,
           updated_by := Some (orElse (getCurrentUserId req) 0)\<rparr>) st)) = foreign_rows req st"
    by (intro save_frame[where ?u0.0 = u]) simp_all
  with Inr show ?thesis by (simp add: deactivate_def)
qed

lemma softDelete_frame:
  assumes "distinct (map user_id (rows st))" "u \<in> set (rows st)" "tenant_id u = tenantId req"
  shows "foreign_rows req (softDelete now (user_id u) st) = foreign_rows req st"
proof -
  have "tenant_id r = tenantId req \<and> tenant_id (r\<lparr>deleted_at := Some now\<rparr>) = tenantId req"
    if "r \<in> set (rows st)" "user_id r = user_id u" for r
  proof -
    from distinct_key[OF assms(1) assms(2) that] have "r = u" .
    with assms(3) show ?thesis by simp
  qed
  then have "filter (\<lambda>u. tenant_id u \<noteq> tenantId req)
          (map (\<lambda>r. if user_id r = user_id u then r\<lparr>deleted_at := Some now\<rparr> else r) (rows st))
        = filter (\<lambda>u. tenant_id u \<noteq> tenantId req) (rows st)"
    by (rule frame_map)
  then show ?thesis
    by (simp only: foreign_rows_def softDelete_def rows_upd)
qed

lemma remove_frame:
  assumes "distinct (map user_id (rows st))"
  shows "foreign_rows req (snd (remove now req i st)) = foreign_rows req st"
proof (cases "findOne req i st")
  case (Inl err)
  then show ?thesis by (simp add: remove_def)
next
  case (Inr u)
  from findOne_Inr[OF Inr] have u: "u \<in> set (rows st)" "tenant_id u = tenantId req" and i: "i = user_id u"
    by simp_all
  from Inr show ?thesis
    by (simp add: remove_def i softDelete_frame[OF assms u])
qed

lemma repo_update_no_row:
  assumes "\<And>r. \<not> crit r"
  shows "repo_update crit p st = st"
  by (simp add: repo_update_def assms)

lemma updateLastLogin_writes_nothing: "updateLastLogin now req i st = st"
  unfolding updateLastLogin_def by (rule repo_update_no_row) (simp add: tenant_relation_is_def)

lemma bulkActivate_writes_nothing: "bulkActivate now req ids st = st"
  unfolding bulkActivate_def by (rule repo_update_no_row) (simp add: tenant_relation_is_def)

lemma bulkDeactivate_writes_nothing: "snd (bulkDeactivate now req ids st) = st"
  by (simp add: bulkDeactivate_def Let_def)

lemma bulkDeactivate_result_own:
  "fst (bulkDeactivate now req ids (own_slice req st)) = fst (bulkDeactivate now req ids st)"
  by (simp add: bulkDeactivate_def Let_def)

lemma getBaseQuery_own_slice: "getBaseQuery req (own_slice req st) = getBaseQuery req st"
  by (simp add: getBaseQuery_def own_slice_def getTenantId_def)

lemma findOne_own_slice: "findOne req i (own_slice req st) = findOne req i st"
  by (simp add: findOne_def getBaseQuery_own_slice)

lemma findByEmail_own_slice: "findByEmail req em (own_slice req st) = findByEmail req em st"
  by (simp add: findByEmail_def getBaseQuery_own_slice)

lemma findAll_own_slice: "findAll e req q (own_slice req st) = findAll e req q st"
  by (simp add: findAll_def findAll_query_def getBaseQuery_own_slice)

lemma next_id_own_slice: "next_id (own_slice req st) = next_id st"
  by (simp add: own_slice_def)

lemma list_ex_own_slice:
  "list_ex (\<lambda>r. Q r \<and> tenant_id r = tenantId req \<and> R r) (rows (own_slice req st))
     = list_ex (\<lambda>r. Q r \<and> tenant_id r = tenantId req \<and> R r) (rows st)"
  by (auto simp: own_slice_def list_ex_iff)

lemma fst_save_own_slice:
  assumes "tenant_id u = tenantId req"
  shows "fst (save e salt u (own_slice req st)) = fst (save e salt u st)"
  using list_ex_own_slice[of "\<lambda>r. user_id r \<noteq> user_id u" req "\<lambda>r. email r = email u" st] assms
  by (simp add: save_def Let_def hashPassword_keys)

lemma create_result_own:
  "fst (create e salt now req dto (own_slice req st)) = fst (create e salt now req dto st)"
  by (simp add: create_def getBaseQuery_own_slice save_new_def split: option.splits)

lemma update_result_own:
  "fst (update e salt req i dto (own_slice req st)) = fst (update e salt req i dto st)"
proof (cases "findOne req i st")
  case (Inl err)
  then show ?thesis by (simp add: update_def findOne_own_slice)
next
  case (Inr u)
  from findOne_Inr[OF Inr] have "tenant_id (assign u dto (getCurrentUserId req)) = tenantId req"
    by (simp add: assign_keys)
  from fst_save_own_slice[OF this] Inr show ?thesis
    by (simp add: update_def findOne_own_slice findByEmail_own_slice cong: option.case_cong)
qed

lemma changePassword_result_own:
  "fst (changePassword e salt req i dto (own_slice req st)) = fst (changePassword e salt req i dto st)"
proof (cases "findOne req i st")
  case (Inl err)
  then show ?thesis by (simp add: changePassword_def findOne_own_slice)
next
  case (Inr u)
  from findOne_Inr[OF Inr]
  have "tenant_id (u\<lparr>password_hash := new_password dto, updated_by := getCurrentUserId req\<rparr>)
          = tenantId req"
    by simp
  from fst_save_own_slice[OF this, of e salt st] Inr show ?thesis
    by (auto simp add: changePassword_def findOne_own_slice split: prod.splits sum.splits)
qed

lemma remove_result_own:
  "fst (remove now req i (own_slice req st)) = fst (remove now req i st)"
  by (simp add: remove_def findOne_own_slice split: sum.splits)

lemma activate_result_own:
  "fst (activate e salt req i (own_slice req st)) = fst (activate e salt req i st)"
proof (cases "findOne req i st")
  case (Inl err)
  then show ?thesis by (simp add: activate_def findOne_own_slice)
next
  case (Inr u)
  from findOne_Inr[OF Inr]
  have "tenant_id (u\<lparr>status := ACTIVE, updated_by := Some (orElse (getCurrentUserId req) 0)\<rparr>)
          = tenantId req"
    by simp
  from fst_save_own_slice[OF this] Inr show ?thesis
    by (simp add: activate_def findOne_own_slice)
qed

lemma deactivate_result_own:
  "fst (deactivate e salt req i (own_slice req st)) = fst (deactivate e salt req i st)"
proof (cases "findOne req i st")
  case (Inl err)
  then show ?thesis by (simp add: deactivate_def findOne_own_slice)
next
  case (Inr u)
  from findOne_Inr[OF Inr]
  have "tenant_id (u\<lparr>status := INACTIVE, updated_by := Some (orElse (getCurrentUserId req) 0)\<rparr>)
          = tenantId req"
    by simp
  from fst_save_own_slice[OF this] Inr show ?thesis
    by (simp add: deactivate_def findOne_own_slice)
qed

text \<open>
  Claim C1. Every read or write the users service issues touches only rows of the
  request's tenant, whatever id or parameter the client supplies. On a table whose primary
  keys are distinct, update, changePassword, remove, activate and deactivate leave the rows
  of every other tenant as they were. The other four writing operations write no row at
  all: the insert of create carries no tenant_id and is refused, the criteria of
  updateLastLogin and bulkActivate name the relation tenant and match no row, and the
  statement of bulkDeactivate is refused. What findAll, findOne and findByEmail return, and
  what each writing operation returns, is the same on the table cut down to the tenant's
  own rows, so no row of another tenant is read.
\<close>

theorem tenant_isolation:
  assumes "distinct (map user_id (rows st))"
  shows "foreign_rows req (snd (update e salt req i udto st)) = foreign_rows req st
       \<and> foreign_rows req (snd (changePassword e salt req i pdto st)) = foreign_rows req st
       \<and> foreign_rows req (snd (remove now req i st)) = foreign_rows req st
       \<and> foreign_rows req (snd (activate e salt req i st)) = foreign_rows req st
       \<and> foreign_rows req (snd (deactivate e salt req i st)) = foreign_rows req st
       \<and> snd (create e salt now req cdto st) = st
       \<and> updateLastLogin now req i st = st
       \<and> bulkActivate now req ids st = st
       \<and> snd (bulkDeactivate now req ids st) = st
       \<and> findAll e req q (own_slice req st) = findAll e req q st
       \<and> findOne req i (own_slice req st) = findOne req i st
       \<and> findByEmail req em (own_slice req st) = findByEmail req em st
       \<and> fst (create e salt now req cdto (own_slice req st)) = fst (create e salt now req cdto st)
       \<and> fst (update e salt req i udto (own_slice req st)) = fst (update e salt req i udto st)
       \<and> fst (changePassword e salt req i pdto (own_slice req st))
           = fst (changePassword e salt req i pdto st)
       \<and> fst (remove now req i (own_slice req st)) = fst (remove now req i st)
       \<and> fst (activate e salt req i (own_slice req st)) = fst (activate e salt req i st)
       \<and> fst (deactivate e salt req i (own_slice req st)) = fst (deactivate e salt req i st)
       \<and> fst (bulkDeactivate now req ids (own_slice req st)) = fst (bulkDeactivate now req ids st)"
  by (simp only: update_frame[OF assms] changePassword_frame[OF assms]
      remove_frame[OF assms] activate_frame[OF assms] deactivate_frame[OF assms]
      create_writes_nothing updateLastLogin_writes_nothing bulkActivate_writes_nothing
      bulkDeactivate_writes_nothing findAll_own_slice
      findOne_own_slice findByEmail_own_slice create_result_own update_result_own
      changePassword_result_own remove_result_own activate_result_own deactivate_result_own
      bulkDeactivate_result_own simp_thms)

text \<open>
  The theorem at the sample table: an administrator of tenant 1 addresses carol, a user
  of tenant 2, by her id and her email, and tenant 2's row stays as it was.
\<close>

theorem tenant_isolation_witness:
  "distinct (map user_id (rows sample_store))
   \<and> (foreign_rows (request_of 1 1 ''admin'')
         (snd (update sample_ext ''s'' (request_of 1 1 ''admin'') 3 sample_update_dto sample_store))
        = foreign_rows (request_of 1 1 ''admin'') sample_store
       \<and> foreign_rows (request_of 1 1 ''admin'')
         (snd (changePassword sample_ext ''s'' (request_of 1 1 ''admin'') 3
                \<lparr>current_password = ''Passw0rd!'', new_password = ''Abcdefg1!''\<rparr> sample_store))
        = foreign_rows (request_of 1 1 ''admin'') sample_store
       \<and> foreign_rows (request_of 1 1 ''admin'')
         (snd (remove 50 (request_of 1 1 ''admin'') 3 sample_store))
        = foreign_rows (request_of 1 1 ''admin'') sample_store
       \<and> foreign_rows (request_of 1 1 ''admin'')
         (snd (activate sample_ext ''s'' (request_of 1 1 ''admin'') 3 sample_store))
        = foreign_rows (request_of 1 1 ''admin'') sample_store
       \<and> foreign_rows (request_of 1 1 ''admin'')
         (snd (deactivate sample_ext ''s'' (request_of 1 1 ''admin'') 3 sample_store))
        = foreign_rows (request_of 1 1 ''admin'') sample_store
       \<and> snd (create sample_ext ''s'' 50 (request_of 1 1 ''admin'')
                (sample_create_dto ''Dave@acme.io'' ''Abcdefg1!'') sample_store)
        = sample_store
       \<and> updateLastLogin 50 (request_of 1 1 ''admin'') 3 sample_store = sample_store
       \<and> bulkActivate 50 (request_of 1 1 ''admin'') [2, 3] sample_store = sample_store
       \<and> snd (bulkDeactivate 50 (request_of 1 1 ''admin'') [2, 3] sample_store) = sample_store
       \<and> findAll sample_ext (request_of 1 1 ''admin'') sample_query
            (own_slice (request_of 1 1 ''admin'') sample_store)
          = findAll sample_ext (request_of 1 1 ''admin'') sample_query sample_store
       \<and> findOne (request_of 1 1 ''admin'') 3 (own_slice (request_of 1 1 ''admin'') sample_store)
          = findOne (request_of 1 1 ''admin'') 3 sample_store
       \<and> findByEmail (request_of 1 1 ''admin'') ''carol@other.io''
            (own_slice (request_of 1 1 ''admin'') sample_store)
          = findByEmail (request_of 1 1 ''admin'') ''carol@other.io'' sample_store
       \<and> fst (create sample_ext ''s'' 50 (request_of 1 1 ''admin'')
                (sample_create_dto ''Dave@acme.io'' ''Abcdefg1!'')
                (own_slice (request_of 1 1 ''admin'') sample_store))
          = fst (create sample_ext ''s'' 50 (request_of 1 1 ''admin'')
                (sample_create_dto ''Dave@acme.io'' ''Abcdefg1!'') sample_store)
       \<and> fst (update sample_ext ''s'' (request_of 1 1 ''admin'') 3 sample_update_dto
                (own_slice (request_of 1 1 ''admin'') sample_store))
          = fst (update sample_ext ''s'' (request_of 1 1 ''admin'') 3 sample_update_dto sample_store)
       \<and> fst (changePassword sample_ext ''s'' (request_of 1 1 ''admin'') 3
                \<lparr>current_password = ''Passw0rd!'', new_password = ''Abcdefg1!''\<rparr>
                (own_slice (request_of 1 1 ''admin'') sample_store))
           = fst (changePassword sample_ext ''s'' (request_of 1 1 ''admin'') 3
                \<lparr>current_password = ''Passw0rd!'', new_password = ''Abcdefg1!''\<rparr> sample_store)
       \<and> fst (remove 50 (request_of 1 1 ''admin'') 3 (own_slice (request_of 1 1 ''admin'') sample_store))
          = fst (remove 50 (request_of 1 1 ''admin'') 3 sample_store)
       \<and> fst (activate sample_ext ''s'' (request_of 1 1 ''admin'') 3
                (own_slice (request_of 1 1 ''admin'') sample_store))
          = fst (activate sample_ext ''s'' (request_of 1 1 ''admin'') 3 sample_store)
       \<and> fst (deactivate sample_ext ''s'' (request_of 1 1 ''admin'') 3
                (own_slice (request_of 1 1 ''admin'') sample_store))
          = fst (deactivate sample_ext ''s'' (request_of 1 1 ''admin'') 3 sample_store)
       \<and> fst (bulkDeactivate 50 (request_of 1 1 ''admin'') [2, 3]
                (own_slice (request_of 1 1 ''admin'') sample_store))
          = fst (bulkDeactivate 50 (request_of 1 1 ''admin'') [2, 3] sample_store))
   \<and> foreign_rows (request_of 1 1 ''admin'') sample_store = [carol]
   \<and> fst (remove 50 (request_of 1 1 ''admin'') 3 sample_store)
        = Inl (NotFoundException ''User not found'')
   \<and> fst (update sample_ext ''s'' (request_of 1 1 ''admin'') 3 sample_update_dto sample_store)
        = Inl (NotFoundException ''User not found'')
   \<and> map_sum (\<lambda>err. err) first_name
        (fst (update sample_ext ''s'' (request_of 1 1 ''admin'') 2 sample_update_dto sample_store))
        = Inr ''Robert''
   \<and> findByEmail (request_of 1 1 ''admin'') ''carol@other.io'' sample_store = None"
proof -
  have h: "distinct (map user_id (rows sample_store))"
    by (simp add: sample_store_def alice_def bob_def carol_def sample_user_def)
  have c: "foreign_rows (request_of 1 1 ''admin'') sample_store = [carol]
     \<and> fst (remove 50 (request_of 1 1 ''admin'') 3 sample_store)
        = Inl (NotFoundException ''User not found'')
     \<and> fst (update sample_ext ''s'' (request_of 1 1 ''admin'') 3 sample_update_dto sample_store)
        = Inl (NotFoundException ''User not found'')
     \<and> map_sum (\<lambda>err. err) first_name
        (fst (update sample_ext ''s'' (request_of 1 1 ''admin'') 2 sample_update_dto sample_store))
        = Inr ''Robert''
     \<and> findByEmail (request_of 1 1 ''admin'') ''carol@other.io'' sample_store = None"
    by code_simp
  show ?thesis
    by (rule conjI[OF h conjI[OF tenant_isolation[OF h] c]])
qed

text \<open>
  The hypothesis of the theorem is the table's primary key, which every writing operation
  keeps.
\<close>

lemma primary_keys_distinct: "primary_keys st \<Longrightarrow> distinct (map user_id (rows st))"
  by (simp add: primary_keys_def)

lemma primary_keys_map:
  assumes "primary_keys st" "\<And>r. user_id (g r) = user_id r"
  shows "primary_keys (st\<lparr>rows := map g (rows st)\<rparr>)"
  using assms by (simp add: primary_keys_def comp_def list_all_iff)

lemma primary_keys_save:
  assumes "primary_keys st"
  shows "primary_keys (snd (save e salt u st))"
proof -
  have "primary_keys (st\<lparr>rows := map (\<lambda>r. if user_id r = user_id u then hashPassword e salt u else r)
          (rows st)\<rparr>)"
    by (rule primary_keys_map[OF assms]) (simp add: hashPassword_keys)
  with save_cases[of e salt u st] assms show ?thesis by auto
qed

lemma changePassword_snd:
  "snd (changePassword e salt req i dto st) = st
   \<or> (\<exists>u. snd (changePassword e salt req i dto st) = snd (save e salt u st))"
  by (auto simp: changePassword_def split: sum.splits prod.splits)
     (metis snd_conv)+

lemma primary_keys_preserved:
  assumes "primary_keys st"
  shows "primary_keys (snd (create e salt now req cdto st))"
    and "primary_keys (snd (update e salt req i udto st))"
    and "primary_keys (snd (changePassword e salt req i pdto st))"
    and "primary_keys (snd (remove now req i st))"
    and "primary_keys (snd (activate e salt req i st))"
    and "primary_keys (snd (deactivate e salt req i st))"
    and "primary_keys (updateLastLogin now req i st)"
    and "primary_keys (bulkActivate now req ids st)"
    and "primary_keys (snd (bulkDeactivate now req ids st))"
proof -
  show "primary_keys (snd (create e salt now req cdto st))"
    using assms by (simp add: create_writes_nothing)
  show "primary_keys (snd (update e salt req i udto st))"
    using assms primary_keys_save[OF assms] by (simp add: update_def split: sum.splits)
  show "primary_keys (snd (changePassword e salt req i pdto st))"
    using assms primary_keys_save[OF assms, of e salt] changePassword_snd[of e salt req i pdto st]
    by auto
  have "primary_keys (softDelete now i st)"
    unfolding softDelete_def by (rule primary_keys_map[OF assms]) simp
  then show "primary_keys (snd (remove now req i st))"
    using assms by (simp add: remove_def split: sum.splits)
  show "primary_keys (snd (activate e salt req i st))"
    using assms primary_keys_save[OF assms] by (simp add: activate_def split: sum.splits)
  show "primary_keys (snd (deactivate e salt req i st))"
    using assms primary_keys_save[OF assms] by (simp add: deactivate_def split: sum.splits)
  show "primary_keys (updateLastLogin now req i st)"
    using assms by (simp add: updateLastLogin_writes_nothing)
  show "primary_keys (bulkActivate now req ids st)"
    using assms by (simp add: bulkActivate_writes_nothing)
  show "primary_keys (snd (bulkDeactivate now req ids st))"
    using assms by (simp add: bulkDeactivate_writes_nothing)
qed

section \<open>Acting on one's own account\<close>
lemma deactivate_self:
  assumes "getCurrentUserId req = Some i"
  shows "deactivate e salt req i st =
      (Inl (if isl (findOne req i st) then NotFoundException ''User not found''
            else BadRequestException ''You cannot deactivate your own account''), st)"
proof (cases "findOne req i st")
  case (Inl err)
  with findOne_Inl[OF Inl] show ?thesis by (simp add: deactivate_def)
next
  case (Inr u)
  with assms show ?thesis by (simp add: deactivate_def)
qed

lemma remove_self:
  assumes "getCurrentUserId req = Some i"
  shows "remove now req i st =
      (Inl (if isl (findOne req i st) then NotFoundException ''User not found''
            else BadRequestException ''You cannot delete your own account''), st)"
proof (cases "findOne req i st")
  case (Inl err)
  with findOne_Inl[OF Inl] show ?thesis by (simp add: remove_def)
next
  case (Inr u)
  with assms show ?thesis by (simp add: remove_def)
qed

text \<open>
  Claim C6, as amended. For every authenticated caller, whatever the role, a deactivate or a
  delete whose target is the caller's own principal id is rejected and leaves the table as
  it was. The rejection is BadRequest when the caller's row is found in the tenant, and
  NotFound when it is not; it is never Forbidden.
\<close>

theorem self_action_rejected:
  assumes "getCurrentUserId req = Some i"
  shows "deactivate e salt req i st =
           (Inl (if isl (findOne req i st) then NotFoundException ''User not found''
                 else BadRequestException ''You cannot deactivate your own account''), st)
       \<and> remove now req i st =
           (Inl (if isl (findOne req i st) then NotFoundException ''User not found''
                 else BadRequestException ''You cannot delete your own account''), st)
       \<and> \<not> is_Forbidden (fst (deactivate e salt req i st))
       \<and> \<not> is_Forbidden (fst (remove now req i st))"
  by (simp add: deactivate_self[OF assms] remove_self[OF assms] is_Forbidden_def)

text \<open>
  The theorem at the sample table: the administrator alice deactivates and deletes herself.
\<close>

theorem self_action_rejected_witness:
  "getCurrentUserId (request_of 1 1 ''admin'') = Some 1
   \<and> deactivate sample_ext ''s'' (request_of 1 1 ''admin'') 1 sample_store =
           (Inl (BadRequestException ''You cannot deactivate your own account''), sample_store)
   \<and> remove 50 (request_of 1 1 ''admin'') 1 sample_store =
           (Inl (BadRequestException ''You cannot delete your own account''), sample_store)"
proof -
  have h: "getCurrentUserId (request_of 1 1 ''admin'') = Some 1"
    by (simp add: getCurrentUserId_def request_of_def)
  have f: "\<not> isl (findOne (request_of 1 1 ''admin'') 1 sample_store)"
    by code_simp
  from self_action_rejected[OF h, of sample_ext "''s''" sample_store 50] f h
  show ?thesis by simp
qed

text \<open>
  Claim C6 as stated fails: the administrator alice, deactivating or deleting her own
  account, is answered BadRequest, not Forbidden.
\<close>

theorem self_deactivate_not_forbidden:
  "fst (deactivate sample_ext ''s'' (request_of 1 1 ''admin'') 1 sample_store)
     = Inl (BadRequestException ''You cannot deactivate your own account'')
   \<and> \<not> is_Forbidden (fst (deactivate sample_ext ''s'' (request_of 1 1 ''admin'') 1 sample_store))
   \<and> fst (remove 50 (request_of 1 1 ''admin'') 1 sample_store)
     = Inl (BadRequestException ''You cannot delete your own account'')
   \<and> \<not> is_Forbidden (fst (remove 50 (request_of 1 1 ''admin'') 1 sample_store))"
  by code_simp

section \<open>What findAll hands back\<close>
lemma set_orderBy: "set (orderBy f ord us) = set us"
  by (simp add: orderBy_def Let_def)

lemma set_searchFilter: "set (searchFilter e s us) \<subseteq> set us"
  by (auto simp: searchFilter_def split: option.splits)

lemma set_departmentFilter: "set (departmentFilter e d us) \<subseteq> set us"
  by (auto simp: departmentFilter_def split: option.splits)

lemma findAll_query_subset: "set (findAll_query e req q st) \<subseteq> set (getBaseQuery req st)"
proof -
  let ?q1 = "searchFilter e (q_search q) (getBaseQuery req st)"
  let ?q2 = "case q_role q of None \<Rightarrow> ?q1 | Some r \<Rightarrow> filter (\<lambda>u. role u = r) ?q1"
  let ?q3 = "case q_status q of None \<Rightarrow> ?q2 | Some s \<Rightarrow> filter (\<lambda>u. status u = s) ?q2"
  have 1: "set ?q1 \<subseteq> set (getBaseQuery req st)" by (rule set_searchFilter)
  have 2: "set ?q2 \<subseteq> set ?q1" by (auto split: option.splits)
  have 3: "set ?q3 \<subseteq> set ?q2" by (auto split: option.splits)
  have 4: "set (departmentFilter e (q_department q) ?q3) \<subseteq> set ?q3"
    by (rule set_departmentFilter)
  from 1 2 3 4 show ?thesis
    unfolding findAll_query_def Let_def set_orderBy by blast
qed

lemma findAll_data:
  "data (findAll e req q st) =
     map toUserDto (take (nat (orElse (q_limit q) 10))
       (drop (nat ((orElse (q_page q) 1 - 1) * orElse (q_limit q) 10)) (findAll_query e req q st)))"
  by (simp add: findAll_def Let_def)

text \<open>
  Claim C10. Every element of the data array that findAll returns is built from a stored
  user of the request's tenant and carries that user's password_hash,
  password_reset_token and password_reset_expires_at as plain fields.
\<close>

theorem findAll_returns_credentials:
  "\<forall>d \<in> set (data (findAll e req q st)).
     \<exists>u \<in> set (rows st).
       tenant_id u = tenantId req \<and> r_id d = user_id u
       \<and> r_password_hash d = password_hash u
       \<and> r_password_reset_token d = password_reset_token u
       \<and> r_password_reset_expires_at d = password_reset_expires_at u"
proof
  fix d assume "d \<in> set (data (findAll e req q st))"
  then obtain u where d: "d = toUserDto u"
    and "u \<in> set (take (nat (orElse (q_limit q) 10))
       (drop (nat ((orElse (q_page q) 1 - 1) * orElse (q_limit q) 10)) (findAll_query e req q st)))"
    unfolding findAll_data by auto
  then have "u \<in> set (findAll_query e req q st)"
    by (meson in_set_takeD in_set_dropD)
  with findAll_query_subset have "u \<in> set (getBaseQuery req st)" by blast
  then have "u \<in> set (rows st)" "tenant_id u = tenantId req"
    by (simp_all add: getBaseQuery_mem)
  with d show "\<exists>u \<in> set (rows st).
       tenant_id u = tenantId req \<and> r_id d = user_id u
       \<and> r_password_hash d = password_hash u
       \<and> r_password_reset_token d = password_reset_token u
       \<and> r_password_reset_expires_at d = password_reset_expires_at u"
    by (auto simp: toUserDto_def)
qed

text \<open>
  The theorem at the sample table: an employee of tenant 1 lists the users and reads the
  digests and reset tokens of alice and bob.
\<close>

theorem findAll_returns_credentials_witness:
  "map r_password_hash (data (findAll sample_ext (request_of 1 2 ''employee'') sample_query sample_store))
     = [''$2a$12$NaClNaClNaClNaClNaClNaSecret1!'', ''$2a$12$NaClNaClNaClNaClNaClNaHunter2!'']
   \<and> map r_password_reset_token
        (data (findAll sample_ext (request_of 1 2 ''employee'') sample_query sample_store))
     = [Some ''reset-me'', Some ''reset-me'']
   \<and> (\<exists>u \<in> set (rows sample_store).
       tenant_id u = 1 \<and> user_id u = 1
       \<and> password_hash u = ''$2a$12$NaClNaClNaClNaClNaClNaSecret1!''
       \<and> password_reset_token u = Some ''reset-me''
       \<and> password_reset_expires_at u = Some 99)"
proof -
  let ?res = "findAll sample_ext (request_of 1 2 ''employee'') sample_query sample_store"
  have a: "map r_password_hash (data ?res)
     = [''$2a$12$NaClNaClNaClNaClNaClNaSecret1!'', ''$2a$12$NaClNaClNaClNaClNaClNaHunter2!'']"
    by code_simp
  have b: "map r_password_reset_token (data ?res) = [Some ''reset-me'', Some ''reset-me'']"
    by code_simp
  have m: "toUserDto alice \<in> set (data ?res)"
    by code_simp
  have t: "tenantId (request_of 1 2 ''employee'') = 1"
    by (simp add: request_of_def)
  have v: "r_id (toUserDto alice) = 1
     \<and> r_password_hash (toUserDto alice) = ''$2a$12$NaClNaClNaClNaClNaClNaSecret1!''
     \<and> r_password_reset_token (toUserDto alice) = Some ''reset-me''
     \<and> r_password_reset_expires_at (toUserDto alice) = Some 99"
    by code_simp
  from findAll_returns_credentials[of sample_ext "request_of 1 2 ''employee''" sample_query sample_store] m
  obtain u where "u \<in> set (rows sample_store)" "tenant_id u = tenantId (request_of 1 2 ''employee'')"
    "r_id (toUserDto alice) = user_id u" "r_password_hash (toUserDto alice) = password_hash u"
    "r_password_reset_token (toUserDto alice) = password_reset_token u"
    "r_password_reset_expires_at (toUserDto alice) = password_reset_expires_at u"
    by blast
  with t v have "\<exists>u \<in> set (rows sample_store).
       tenant_id u = 1 \<and> user_id u = 1
       \<and> password_hash u = ''$2a$12$NaClNaClNaClNaClNaClNaSecret1!''
       \<and> password_reset_token u = Some ''reset-me''
       \<and> password_reset_expires_at u = Some 99"
    by (intro bexI[of _ u]) simp_all
  with a b show ?thesis by blast
qed

section \<open>Registration and Conflict\<close>
lemma register_catch_Conflict: "is_Conflict (Inl (register_catch err))"
  by (cases err) (simp_all add: register_catch_def is_Conflict_def)

lemma register_failure_is_Conflict:
  "isl (fst (register e cfg now salt salt' req dto st)) \<Longrightarrow>
   is_Conflict (fst (register e cfg now salt salt' req dto st))"
  by (auto simp: register_def register_catch_Conflict split: prod.splits sum.splits)

lemma create_duplicate_visible:
  assumes "findByEmail req (c_email dto) st \<noteq> None"
  shows "create e salt now req dto st
           = (Inl (ConflictException ''User with this email already exists''), st)"
  using assms by (auto simp: create_def findByEmail_def split: option.splits)

lemma create_never_succeeds: "isl (fst (create e salt now req dto st))"
  by (simp add: create_def save_new_def split: option.splits)

lemma create_invisible:
  assumes "findByEmail req (c_email dto) st = None"
  shows "create e salt now req dto st = (Inl QueryFailedError, st)"
  using assms by (simp add: create_def findByEmail_def save_new_def)

lemma findByEmail_no_row:
  assumes "\<not> list_ex (\<lambda>r. tenant_id r = tenantId req \<and> email r = toLowerCase em) (rows st)"
  shows "findByEmail req em st = None"
proof -
  have "filter (\<lambda>u. email u = toLowerCase em) (getBaseQuery req st) = []"
    using assms by (auto simp: filter_empty_conv getBaseQuery_mem list_ex_iff)
  then show ?thesis by (simp add: findByEmail_def getOne_def)
qed

lemma generateTokens_no_secret:
  "JWT_SECRET cfg = None \<Longrightarrow>
   generateTokens e cfg now i em = Inl (Error ''secretOrPrivateKey must have a value'')"
  by (simp add: generateTokens_def signAsync_def)

lemma generateTokens_secret:
  "configured cfg k ta tr \<Longrightarrow>
   generateTokens e cfg now i em =
     Inr \<lparr> accessToken = jwt_sign e \<lparr>sub = i, jwt_email = em\<rparr> k ta now,
           refreshToken = jwt_sign e \<lparr>sub = i, jwt_email = em\<rparr> k tr now \<rparr>"
  by (simp add: generateTokens_def signAsync_def Let_def configured_def)

lemma register_no_duplicate:
  assumes "\<not> list_ex (\<lambda>r. tenant_id r = tenantId req \<and> email r = toLowerCase (c_email dto)) (rows st)"
  shows "fst (register e cfg now salt salt' req dto st) = Inl (ConflictException ''Registration failed'')"
  using create_invisible[OF findByEmail_no_row[OF assms], of e salt now]
  by (simp add: register_def register_catch_def)

text \<open>
  Claim C5, as amended. Register fails only with Conflict. A registration whose
  (tenant_id, email) a visible principal already has raises Conflict ``User with this email
  already exists'' and writes nothing; one whose (tenant_id, email) any stored row has, a
  soft-deleted one too, raises Conflict. Every other failure of the flow (the insert
  refused, the tokens not signed) is surfaced as Conflict as well: with no duplicate at all
  and no signing secret configured, register answers Conflict ``Registration failed''.
\<close>

theorem register_conflict:
  "(isl (fst (register e cfg now salt salt' req dto st)) \<longrightarrow>
      is_Conflict (fst (register e cfg now salt salt' req dto st)))
   \<and> (findByEmail req (c_email dto) st \<noteq> None \<longrightarrow>
        register e cfg now salt salt' req dto st
          = (Inl (ConflictException ''User with this email already exists''), st))
   \<and> (list_ex (\<lambda>r. tenant_id r = tenantId req \<and> email r = toLowerCase (c_email dto)) (rows st) \<longrightarrow>
        is_Conflict (fst (register e cfg now salt salt' req dto st)))
   \<and> (\<not> list_ex (\<lambda>r. tenant_id r = tenantId req \<and> email r = toLowerCase (c_email dto)) (rows st) \<longrightarrow>
        JWT_SECRET cfg = None \<longrightarrow>
        fst (register e cfg now salt salt' req dto st)
          = Inl (ConflictException ''Registration failed''))"
proof (intro conjI impI)
  assume "isl (fst (register e cfg now salt salt' req dto st))"
  then show "is_Conflict (fst (register e cfg now salt salt' req dto st))"
    by (rule register_failure_is_Conflict)
next
  assume "findByEmail req (c_email dto) st \<noteq> None"
  from create_duplicate_visible[OF this]
  show "register e cfg now salt salt' req dto st
          = (Inl (ConflictException ''User with this email already exists''), st)"
    by (simp add: register_def register_catch_def)
next
  assume "list_ex (\<lambda>r. tenant_id r = tenantId req \<and> email r = toLowerCase (c_email dto)) (rows st)"
  from create_never_succeeds[of e salt now req dto st]
  have "isl (fst (register e cfg now salt salt' req dto st))"
    by (auto simp: register_def split: prod.splits sum.splits)
  then show "is_Conflict (fst (register e cfg now salt salt' req dto st))"
    by (rule register_failure_is_Conflict)
next
  assume "\<not> list_ex (\<lambda>r. tenant_id r = tenantId req \<and> email r = toLowerCase (c_email dto)) (rows st)"
    and "JWT_SECRET cfg = None"
  then show "fst (register e cfg now salt salt' req dto st)
          = Inl (ConflictException ''Registration failed'')"
    by (intro register_no_duplicate)
qed

text \<open>
  The theorem at the sample table: a second registration of alice's email, and the
  registration of a fresh email under a configuration without JWT_SECRET.
\<close>

theorem register_conflict_witness:
  "findByEmail (anonymous 1) ''Alice@acme.io'' sample_store \<noteq> None
   \<and> register sample_ext sample_config 50 ''s'' ''t'' (anonymous 1)
        (sample_create_dto ''Alice@acme.io'' ''Abcdefg1!'') sample_store
       = (Inl (ConflictException ''User with this email already exists''), sample_store)
   \<and> isl (fst (register sample_ext sample_config 50 ''s'' ''t'' (anonymous 1)
        (sample_create_dto ''Alice@acme.io'' ''Abcdefg1!'') sample_store))
   \<and> is_Conflict (fst (register sample_ext sample_config 50 ''s'' ''t'' (anonymous 1)
        (sample_create_dto ''Alice@acme.io'' ''Abcdefg1!'') sample_store))
   \<and> \<not> list_ex (\<lambda>r. tenant_id r = tenantId (anonymous 1) \<and> email r = toLowerCase ''dave@acme.io'')
         (rows sample_store)
   \<and> JWT_SECRET (sample_config\<lparr>JWT_SECRET := None\<rparr>) = None
   \<and> fst (register sample_ext (sample_config\<lparr>JWT_SECRET := None\<rparr>) 50 ''s'' ''t'' (anonymous 1)
        (sample_create_dto ''dave@acme.io'' ''Abcdefg1!'') sample_store)
       = Inl (ConflictException ''Registration failed'')"
proof -
  have d: "c_email (sample_create_dto ''Alice@acme.io'' ''Abcdefg1!'') = ''Alice@acme.io''"
      "c_email (sample_create_dto ''dave@acme.io'' ''Abcdefg1!'') = ''dave@acme.io''"
    by (simp_all add: sample_create_dto_def)
  have h1: "findByEmail (anonymous 1) ''Alice@acme.io'' sample_store \<noteq> None"
    by code_simp
  have h2: "\<not> list_ex (\<lambda>r. tenant_id r = tenantId (anonymous 1) \<and> email r = toLowerCase ''dave@acme.io'')
         (rows sample_store)"
    by code_simp
  have h3: "JWT_SECRET (sample_config\<lparr>JWT_SECRET := None\<rparr>) = None"
    by simp
  have h4: "list_ex (\<lambda>r. tenant_id r = tenantId (anonymous 1) \<and> email r = toLowerCase ''Alice@acme.io'')
         (rows sample_store)"
    by code_simp
  note a = register_conflict[of sample_ext sample_config 50 "''s''" "''t''" "anonymous 1"
      "sample_create_dto ''Alice@acme.io'' ''Abcdefg1!''" sample_store, unfolded d]
  note b = register_conflict[of sample_ext "sample_config\<lparr>JWT_SECRET := None\<rparr>" 50 "''s''" "''t''"
      "anonymous 1" "sample_create_dto ''dave@acme.io'' ''Abcdefg1!''" sample_store, unfolded d]
  from a h1 have r1: "register sample_ext sample_config 50 ''s'' ''t'' (anonymous 1)
        (sample_create_dto ''Alice@acme.io'' ''Abcdefg1!'') sample_store
       = (Inl (ConflictException ''User with this email already exists''), sample_store)"
    by blast
  then have r2: "isl (fst (register sample_ext sample_config 50 ''s'' ''t'' (anonymous 1)
        (sample_create_dto ''Alice@acme.io'' ''Abcdefg1!'') sample_store))"
    by simp
  from a h4 have r3: "is_Conflict (fst (register sample_ext sample_config 50 ''s'' ''t'' (anonymous 1)
        (sample_create_dto ''Alice@acme.io'' ''Abcdefg1!'') sample_store))"
    by blast
  from b h2 h3 have r4: "fst (register sample_ext (sample_config\<lparr>JWT_SECRET := None\<rparr>) 50 ''s'' ''t''
        (anonymous 1) (sample_create_dto ''dave@acme.io'' ''Abcdefg1!'') sample_store)
       = Inl (ConflictException ''Registration failed'')"
    by blast
  from h1 r1 r2 r3 h2 h3 r4 show ?thesis by blast
qed

text \<open>
  Claim C5 as stated fails: no principal of tenant 1 has the email dave@acme.io, and the
  registration still fails with Conflict.
\<close>

theorem register_conflict_without_duplicate:
  "\<not> list_ex (\<lambda>r. tenant_id r = 1 \<and> email r = ''dave@acme.io'') (rows sample_store)
   \<and> findByEmail (anonymous 1) ''dave@acme.io'' sample_store = None
   \<and> is_Conflict (fst (register sample_ext (sample_config\<lparr>JWT_SECRET := None\<rparr>) 50 ''s'' ''t''
        (anonymous 1) (sample_create_dto ''dave@acme.io'' ''Abcdefg1!'') sample_store))
   \<and> fst (register sample_ext (sample_config\<lparr>JWT_SECRET := None\<rparr>) 50 ''s'' ''t''
        (anonymous 1) (sample_create_dto ''dave@acme.io'' ''Abcdefg1!'') sample_store)
       = Inl (ConflictException ''Registration failed'')"
  by code_simp

section \<open>Login and the principal's status\<close>

lemma getOne_map: "getOne (map g xs) = map_option g (getOne xs)"
  by (cases xs) (simp_all add: getOne_def)








text \<open>
  On the source as it stands \<^verbatim>\<open>validateUser\<close> returns null for every input, since the
  digest it hands to the verification is undefined.
\<close>

lemma validateUser_null: "validateUser e req em pw st = None"
  by (simp add: validateUser_def users_validatePassword_def user_password_def
      split: option.splits)



section \<open>Hashing and verifying a password\<close>

lemma hashPassword_hashes:
  assumes "s \<noteq> []" "\<not> startsWith s ''$2a$''"
  shows "hashPassword e salt (u\<lparr>password_hash := s\<rparr>) = u\<lparr>password_hash := bcrypt_hash e s 12 salt\<rparr>"
  using assms by (simp add: hashPassword_def)

lemma hashPassword_skips:
  assumes "s = [] \<or> startsWith s ''$2a$''"
  shows "hashPassword e salt (u\<lparr>password_hash := s\<rparr>) = u\<lparr>password_hash := s\<rparr>"
  using assms by (auto simp: hashPassword_def)

text \<open>The sample bcrypt is bcrypt as documented.\<close>

lemma length_pad: "length (pad n s) = n"
  by (simp add: pad_def)

lemma sample_bcrypt_roundtrip:
  "sample_bcrypt_compare s (sample_bcrypt_hash s' rounds salt) = (take 72 s = take 72 s')"
proof -
  obtain p where p: "sample_bcrypt_hash s' rounds salt = ''$2a$'' @ p @ take 72 s'"
    and l: "length p = 25"
  proof
    show "sample_bcrypt_hash s' rounds salt
        = ''$2a$'' @ ((if rounds = 12 then ''12'' else ''10'') @ ''$'' @ pad 22 salt) @ take 72 s'"
      by (simp add: sample_bcrypt_hash_def)
    show "length ((if rounds = 12 then ''12'' else ''10'') @ ''$'' @ pad 22 salt) = 25"
      by (simp add: length_pad)
  qed
  have "take 4 (''$2a$'' @ p @ take 72 s') = ''$2a$''" by simp
  moreover have "drop 29 (''$2a$'' @ p @ take 72 s') = take 72 s'" using l by simp
  moreover have "29 \<le> length (''$2a$'' @ p @ take 72 s')" using l by simp
  ultimately show ?thesis
    unfolding sample_bcrypt_compare_def p by (simp only: simp_thms) (rule eq_commute)
qed

lemma sample_bcrypt_documented: "bcrypt_documented sample_ext"
  by (simp add: bcrypt_documented_def sample_ext_def sample_bcrypt_roundtrip)

text \<open>
  Claim C7, as amended. With bcrypt as documented, for every secret s that is not empty and
  does not begin with ``$2a$'': verifying s against the hash of s returns true, and
  verifying another secret against the hash of s returns true if the two agree on their
  first 72 bytes and false if they differ there.
\<close>

theorem hash_then_verify:
  assumes "bcrypt_documented e" "s \<noteq> []" "\<not> startsWith s ''$2a$''"
  shows "validatePassword e (hashPassword e salt (u\<lparr>password_hash := s\<rparr>)) s
       \<and> validatePassword e (hashPassword e salt (u\<lparr>password_hash := s\<rparr>)) s'
           = (take 72 s' = take 72 s)"
proof -
  from assms(1) have "\<And>x. bcrypt_compare e x (bcrypt_hash e s 12 salt) = (take 72 x = take 72 s)"
    by (simp add: bcrypt_documented_def)
  then show ?thesis
    by (simp add: hashPassword_hashes[OF assms(2,3)] validatePassword_def)
qed

text \<open>
  The theorem for the secret ``Secret1!'' and the sample libraries: it verifies against
  its own hash, and ``Hunter2!'' does not verify against it.
\<close>

theorem hash_then_verify_witness:
  "bcrypt_documented sample_ext
   \<and> ''Secret1!'' \<noteq> [] \<and> \<not> startsWith ''Secret1!'' ''$2a$''
   \<and> validatePassword sample_ext (hashPassword sample_ext ''NaCl'' (alice\<lparr>password_hash := ''Secret1!''\<rparr>))
        ''Secret1!''
   \<and> \<not> validatePassword sample_ext
          (hashPassword sample_ext ''NaCl'' (alice\<lparr>password_hash := ''Secret1!''\<rparr>)) ''Hunter2!''"
proof -
  have h2: "''Secret1!'' \<noteq> []" by simp
  have h3: "\<not> startsWith ''Secret1!'' ''$2a$''" by (simp add: startsWith_def)
  note a = hash_then_verify[OF sample_bcrypt_documented h2 h3, of "''NaCl''" alice "''Hunter2!''"]
  have d: "take 72 ''Hunter2!'' \<noteq> take 72 ''Secret1!''" by simp
  note r1 = a[THEN conjunct1]
  from a[THEN conjunct2] d
  have r2: "\<not> validatePassword sample_ext
          (hashPassword sample_ext ''NaCl'' (alice\<lparr>password_hash := ''Secret1!''\<rparr>)) ''Hunter2!''"
    by (simp only: simp_thms)
  show ?thesis
    by (intro conjI) (rule sample_bcrypt_documented h2 h3 r1 r2)+
qed

text \<open>
  Claim C7 as stated fails in both halves. The secret ``$2a$Abcdefg1'' is left unhashed by
  the hook and does not verify against what is stored for it, and neither does the empty
  secret; and two distinct secrets that agree on their first 72 bytes verify against each
  other's digest.
\<close>

theorem verify_after_hash_fails:
  "\<not> validatePassword sample_ext
        (hashPassword sample_ext ''NaCl'' (alice\<lparr>password_hash := ''$2a$Abcdefg1''\<rparr>)) ''$2a$Abcdefg1''
   \<and> \<not> validatePassword sample_ext
        (hashPassword sample_ext ''NaCl'' (alice\<lparr>password_hash := []\<rparr>)) []
   \<and> ''0123456789012345678901234567890123456789012345678901234567890123456789AB-one''
       \<noteq> ''0123456789012345678901234567890123456789012345678901234567890123456789AB-two''
   \<and> validatePassword sample_ext
        (hashPassword sample_ext ''NaCl'' (alice\<lparr>password_hash :=
           ''0123456789012345678901234567890123456789012345678901234567890123456789AB-two''\<rparr>))
        ''0123456789012345678901234567890123456789012345678901234567890123456789AB-one''"
  by code_simp

section \<open>What is stored as password_hash\<close>

text \<open>
  Claim C8 fails on the code: the stored password_hash must never be the plaintext
  password supplied. Alice changes her password to ``$2a$Abcdefg1'', and password_hash holds
  the plaintext as supplied. The hook leaves the same plaintext in the entity that create
  builds for that password, before the insert of that entity is refused.
\<close>

theorem plaintext_password_stored:
  "fst (changePassword sample_ext ''NaCl'' (request_of 1 1 ''admin'') 1
          \<lparr>current_password = ''Secret1!'', new_password = ''$2a$Abcdefg1''\<rparr> sample_store) = Inr ()
   \<and> map password_hash
        (rows (snd (changePassword sample_ext ''NaCl'' (request_of 1 1 ''admin'') 1
          \<lparr>current_password = ''Secret1!'', new_password = ''$2a$Abcdefg1''\<rparr> sample_store)))
      = [''$2a$Abcdefg1'', password_hash bob, password_hash carol]
   \<and> password_hash (hashPassword sample_ext ''NaCl''
        (new_user 50 (sample_create_dto ''dave@acme.io'' ''$2a$Abcdefg1'')))
      = ''$2a$Abcdefg1''"
  by code_simp

section \<open>Changing the password and the refresh session\<close>
lemma findById_map:
  assumes "\<And>r. user_id (g r) = user_id r" "\<And>r. tenant_id (g r) = tenant_id r"
    "\<And>r. deleted_at (g r) = deleted_at r"
  shows "findById req i (st\<lparr>rows := map g (rows st)\<rparr>) = map_option g (findById req i st)"
  by (simp add: findById_def getBaseQuery_def filter_map comp_def assms getOne_map)

lemma refreshTokens_fst_map:
  assumes "\<And>r. user_id (g r) = user_id r" "\<And>r. tenant_id (g r) = tenant_id r"
    "\<And>r. deleted_at (g r) = deleted_at r" "\<And>r. email (g r) = email r"
    "\<And>r. refresh_record (g r) = refresh_record r"
  shows "fst (refreshTokens e cfg now salt req i tok (st\<lparr>rows := map g (rows st)\<rparr>))
           = fst (refreshTokens e cfg now salt req i tok st)"
  by (simp add: refreshTokens_def findById_map[of g, OF assms(1,2,3)] assms(1,4,5)
      split: option.splits sum.splits)

lemma controller_refreshTokens_fst_map:
  assumes "\<And>r. user_id (g r) = user_id r" "\<And>r. tenant_id (g r) = tenant_id r"
    "\<And>r. deleted_at (g r) = deleted_at r" "\<And>r. email (g r) = email r"
    "\<And>r. refresh_record (g r) = refresh_record r"
  shows "fst (controller_refreshTokens e cfg now salt req tok (st\<lparr>rows := map g (rows st)\<rparr>))
           = fst (controller_refreshTokens e cfg now salt req tok st)"
  by (simp add: controller_refreshTokens_def refreshTokens_fst_map[of g, OF assms]
      split: option.splits)

lemma hashPassword_storedPassword:
  "hashPassword e salt (u\<lparr>password_hash := pw, updated_by := c\<rparr>)
     = u\<lparr>password_hash := storedPassword e salt pw, updated_by := c\<rparr>"
  by (simp add: hashPassword_def storedPassword_def)

lemma map_replace_distinct:
  assumes "distinct (map user_id xs)" "u \<in> set xs"
  shows "map (\<lambda>r. if user_id r = user_id u then f u else r) xs
       = map (\<lambda>r. if user_id r = user_id u then f r else r) xs"
proof (rule map_cong[OF refl])
  fix r assume "r \<in> set xs"
  show "(if user_id r = user_id u then f u else r) = (if user_id r = user_id u then f r else r)"
    using distinct_key[OF assms \<open>r \<in> set xs\<close>] by auto
qed

lemma changePassword_rows:
  assumes "distinct (map user_id (rows st))"
    and "changePassword e salt req i dto st = (Inr (), st')"
  shows "st' = st\<lparr>rows := map (\<lambda>r. if user_id r = i
                   then r\<lparr>password_hash := storedPassword e salt (new_password dto),
                          updated_by := Some i\<rparr>
                   else r) (rows st)\<rparr>"
proof -
  from assms(2) have cur: "getCurrentUserId req = Some i"
    by (auto simp: changePassword_def split: if_splits)
  from assms(2) cur obtain u where u: "findOne req i st = Inr u"
    by (cases "findOne req i st") (auto simp: changePassword_def)
  let ?u' = "u\<lparr>password_hash := new_password dto, updated_by := Some i\<rparr>"
  from assms(2) cur u have "fst (save e salt ?u' st) \<noteq> Inl QueryFailedError"
      and s: "st' = snd (save e salt ?u' st)"
    by (auto simp: changePassword_def split: if_splits prod.splits sum.splits)
  with save_cases[of e salt ?u' st]
  have 1: "st' = st\<lparr>rows := map (\<lambda>r. if user_id r = user_id ?u' then hashPassword e salt ?u' else r)
                  (rows st)\<rparr>"
    by auto
  from findOne_Inr[OF u] have m: "u \<in> set (rows st)" and i: "user_id u = i" by simp_all
  let ?f = "\<lambda>x. x\<lparr>password_hash := storedPassword e salt (new_password dto), updated_by := Some i\<rparr>"
  have 2: "hashPassword e salt ?u' = ?f u"
    by (rule hashPassword_storedPassword)
  have 3: "user_id ?u' = user_id u" by simp
  have 4: "map (\<lambda>r. if user_id r = user_id u then ?f u else r) (rows st)
       = map (\<lambda>r. if user_id r = user_id u then ?f r else r) (rows st)"
    by (rule map_replace_distinct[OF assms(1) m])
  from 1 show ?thesis
    unfolding 2 3 i 4[unfolded i] .
qed

text \<open>
  Claim C9. A successful changePassword, on a table with distinct primary keys, changes
  only the password_hash and updated_by of the principal's row; the stored refresh
  fingerprints are unchanged, and every refresh request has the same outcome right after
  the change as it had right before it, so a refresh token valid before still refreshes.
\<close>

theorem changePassword_keeps_refresh_session:
  assumes "distinct (map user_id (rows st))"
    and "changePassword e salt req i dto st = (Inr (), st')"
  shows "st' = st\<lparr>rows := map (\<lambda>r. if user_id r = i
                   then r\<lparr>password_hash := storedPassword e salt (new_password dto),
                          updated_by := Some i\<rparr>
                   else r) (rows st)\<rparr>
       \<and> map refresh_record (rows st') = map refresh_record (rows st)
       \<and> fst (refreshTokens e cfg now salt' req' uid tok st')
           = fst (refreshTokens e cfg now salt' req' uid tok st)
       \<and> fst (controller_refreshTokens e cfg now salt' req' tok st')
           = fst (controller_refreshTokens e cfg now salt' req' tok st)"
proof -
  let ?g = "\<lambda>r. if user_id r = i
                   then r\<lparr>password_hash := storedPassword e salt (new_password dto),
                          updated_by := Some i\<rparr>
                   else r"
  have st': "st' = st\<lparr>rows := map ?g (rows st)\<rparr>"
    by (rule changePassword_rows[OF assms])
  have g: "\<And>r. user_id (?g r) = user_id r" "\<And>r. tenant_id (?g r) = tenant_id r"
    "\<And>r. deleted_at (?g r) = deleted_at r" "\<And>r. email (?g r) = email r"
    "\<And>r. refresh_record (?g r) = refresh_record r"
    by simp_all
  have 2: "map refresh_record (rows st') = map refresh_record (rows st)"
    unfolding st' rows_upd by (simp add: comp_def)
  have 3: "fst (refreshTokens e cfg now salt' req' uid tok st')
           = fst (refreshTokens e cfg now salt' req' uid tok st)"
    unfolding st' by (rule refreshTokens_fst_map[of ?g, OF g])
  have 4: "fst (controller_refreshTokens e cfg now salt' req' tok st')
           = fst (controller_refreshTokens e cfg now salt' req' tok st)"
    unfolding st' by (rule controller_refreshTokens_fst_map[of ?g, OF g])
  from st' 2 3 4 show ?thesis by (intro conjI)
qed

text \<open>
  The theorem at the sample table: \<^verbatim>\<open>AuthService.login\<close> has run for alice, she changes
  her password, and refreshes with the refresh token that login issued.
\<close>

theorem changePassword_keeps_refresh_session_witness:
  "distinct (map user_id (rows logged_in_store))
   \<and> changePassword sample_ext ''NaCl'' (request_of 1 1 ''admin'') 1
        \<lparr>current_password = ''Secret1!'', new_password = ''N3wSecret!''\<rparr> logged_in_store
      = (Inr (), snd (changePassword sample_ext ''NaCl'' (request_of 1 1 ''admin'') 1
        \<lparr>current_password = ''Secret1!'', new_password = ''N3wSecret!''\<rparr> logged_in_store))
   \<and> fst (controller_refreshTokens sample_ext sample_config 9 ''NaCl'' (anonymous 1)
           ''jwt.1.alice@acme.io.5.65|k3y'' logged_in_store)
      = Inr \<lparr>accessToken = ''jwt.1.alice@acme.io.9.24|k3y'',
             refreshToken = ''jwt.1.alice@acme.io.9.69|k3y''\<rparr>
   \<and> fst (controller_refreshTokens sample_ext sample_config 9 ''NaCl'' (anonymous 1)
           ''jwt.1.alice@acme.io.5.65|k3y''
           (snd (changePassword sample_ext ''NaCl'' (request_of 1 1 ''admin'') 1
             \<lparr>current_password = ''Secret1!'', new_password = ''N3wSecret!''\<rparr> logged_in_store)))
      = Inr \<lparr>accessToken = ''jwt.1.alice@acme.io.9.24|k3y'',
             refreshToken = ''jwt.1.alice@acme.io.9.69|k3y''\<rparr>
   \<and> map refresh_record (rows (snd (changePassword sample_ext ''NaCl'' (request_of 1 1 ''admin'') 1
             \<lparr>current_password = ''Secret1!'', new_password = ''N3wSecret!''\<rparr> logged_in_store)))
      = map refresh_record (rows logged_in_store)"
proof -
  let ?st' = "snd (changePassword sample_ext ''NaCl'' (request_of 1 1 ''admin'') 1
        \<lparr>current_password = ''Secret1!'', new_password = ''N3wSecret!''\<rparr> logged_in_store)"
  have h1: "distinct (map user_id (rows logged_in_store))" by code_simp
  have h2: "changePassword sample_ext ''NaCl'' (request_of 1 1 ''admin'') 1
        \<lparr>current_password = ''Secret1!'', new_password = ''N3wSecret!''\<rparr> logged_in_store
      = (Inr (), ?st')" by code_simp
  have h3: "fst (controller_refreshTokens sample_ext sample_config 9 ''NaCl'' (anonymous 1)
           ''jwt.1.alice@acme.io.5.65|k3y'' logged_in_store)
      = Inr \<lparr>accessToken = ''jwt.1.alice@acme.io.9.24|k3y'',
             refreshToken = ''jwt.1.alice@acme.io.9.69|k3y''\<rparr>" by code_simp
  note a = changePassword_keeps_refresh_session[OF h1 h2, of sample_config 9 "''NaCl''"
      "anonymous 1" 1 "''jwt.1.alice@acme.io.5.65|k3y''"]
  note r4 = a[THEN conjunct2, THEN conjunct2, THEN conjunct2]
  note r5 = a[THEN conjunct2, THEN conjunct1]
  have r6: "fst (controller_refreshTokens sample_ext sample_config 9 ''NaCl'' (anonymous 1)
           ''jwt.1.alice@acme.io.5.65|k3y'' ?st')
      = Inr \<lparr>accessToken = ''jwt.1.alice@acme.io.9.24|k3y'',
             refreshToken = ''jwt.1.alice@acme.io.9.69|k3y''\<rparr>"
    by (simp only: r4 h3)
  show ?thesis
    by (intro conjI) (rule h1 h2 h3 r5 r6)+
qed

section \<open>Refresh without verification\<close>
lemma refreshTokens_ignores_verify:
  "refreshTokens (e\<lparr>jwt_verify := v\<rparr>) cfg now salt req uid tok st
     = refreshTokens e cfg now salt req uid tok st"
  by (simp add: refreshTokens_def generateTokens_def signAsync_def updateRefreshToken_def
      cong: option.case_cong sum.case_cong if_cong)

lemma refresh_ignores_verify:
  "controller_refreshTokens (e\<lparr>jwt_verify := v\<rparr>) cfg now salt req tok st
     = controller_refreshTokens e cfg now salt req tok st"
  by (simp add: controller_refreshTokens_def refreshTokens_ignores_verify
      cong: option.case_cong if_cong)

lemma refresh_accepts:
  assumes "jwt_decode e tok = Some c" "claim_sub c = Some uid" "uid \<noteq> 0"
    and "findById req uid st = Some u" "refresh_record u = Some h" "h \<noteq> []"
    and "bcrypt_compare e tok h" "configured cfg k ta tr"
  shows "controller_refreshTokens e cfg now salt req tok st =
     (Inr \<lparr> accessToken = jwt_sign e \<lparr>sub = user_id u, jwt_email = email u\<rparr> k
                             ta now,
            refreshToken = jwt_sign e \<lparr>sub = user_id u, jwt_email = email u\<rparr> k
                             tr now \<rparr>,
      updateRefreshToken e salt req (user_id u)
        (jwt_sign e \<lparr>sub = user_id u, jwt_email = email u\<rparr> k tr now)
        st)"
  using assms
  by (simp add: controller_refreshTokens_def refreshTokens_def generateTokens_secret)

text \<open>
  Claim C2 fails on the code: a refresh must succeed only if the token issuer's
  verification of the presented token passes. Alice's refresh token expired at time 65; at
  time 100 verification rejects it and the refresh flow accepts it. A token signed with
  another key, which agrees with dora's refresh token on the first 72 bytes, fails
  verification and is accepted too. In both runs a fresh token pair is issued.
\<close>

theorem unverified_refresh_token_accepted:
  "jwt_decode sample_ext ''jwt.1.alice@acme.io.5.65|k3y''
     = Some \<lparr>claim_sub = Some 1, claim_email = ''alice@acme.io'', iat = 5, exp = 65\<rparr>
   \<and> \<not> jwt_verify sample_ext ''jwt.1.alice@acme.io.5.65|k3y'' ''k3y'' 100
   \<and> fst (controller_refreshTokens sample_ext sample_config 100 ''NaCl'' (anonymous 1)
           ''jwt.1.alice@acme.io.5.65|k3y'' logged_in_store)
      = Inr \<lparr>accessToken = ''jwt.1.alice@acme.io.100.115|k3y'',
             refreshToken = ''jwt.1.alice@acme.io.100.160|k3y''\<rparr>
   \<and> \<not> jwt_verify sample_ext
         ''jwt.4.dora.with.a.rather.long.mailbox.name@warehouse.subsidiary.acme.example.1.2|forged''
         ''k3y'' 9
   \<and> fst (controller_refreshTokens sample_ext sample_config 9 ''NaCl'' (anonymous 1)
         ''jwt.4.dora.with.a.rather.long.mailbox.name@warehouse.subsidiary.acme.example.1.2|forged''
         long_logged_in_store)
      = Inr \<lparr>accessToken =
         ''jwt.4.dora.with.a.rather.long.mailbox.name@warehouse.subsidiary.acme.example.9.24|k3y'',
             refreshToken =
         ''jwt.4.dora.with.a.rather.long.mailbox.name@warehouse.subsidiary.acme.example.9.69|k3y''\<rparr>"
  by code_simp

section \<open>Replay of a rotated refresh token\<close>
lemma findById_after_rotation:
  assumes "findById req uid st = Some u"
  shows "findById req uid (updateRefreshToken e salt req uid tok st)
       = Some (u\<lparr>refresh_record := (if tok \<noteq> [] then Some (bcrypt_hash e tok 10 salt) else None)\<rparr>)"
proof -
  let ?h = "if tok \<noteq> [] then Some (bcrypt_hash e tok 10 salt) else None"
  let ?g = "\<lambda>r. if user_id r = uid \<and> tenant_id r = getTenantId req
                then r\<lparr>refresh_record := ?h\<rparr> else r"
  have st: "updateRefreshToken e salt req uid tok st = st\<lparr>rows := map ?g (rows st)\<rparr>"
    by (simp add: updateRefreshToken_def users_updateRefreshToken_def repo_update_def Let_def)
  from assms have "getOne (filter (\<lambda>u. user_id u = uid) (getBaseQuery req st)) = Some u"
    by (simp add: findById_def)
  from getOne_filter[OF this] have "user_id u = uid" "tenant_id u = getTenantId req"
    by (simp_all add: getBaseQuery_mem getTenantId_def)
  then have "?g u = u\<lparr>refresh_record := ?h\<rparr>" by simp
  moreover have "findById req uid (st\<lparr>rows := map ?g (rows st)\<rparr>) = map_option ?g (findById req uid st)"
    by (rule findById_map) simp_all
  ultimately show ?thesis
    unfolding st using assms by simp
qed

lemma replay_after_rotation:
  assumes "jwt_decode e t1 = Some c" "claim_sub c = Some uid" "uid \<noteq> 0"
    and "findById req uid st = Some u" "refresh_record u = Some h" "h \<noteq> []"
    and "bcrypt_compare e t1 h" "configured cfg k ta tr"
    and "controller_refreshTokens e cfg now salt req t1 st = (Inr toks, st2)"
    and "refreshToken toks \<noteq> []" "bcrypt_hash e (refreshToken toks) 10 salt \<noteq> []"
  shows "isl (fst (controller_refreshTokens e cfg now' salt' req t1 st2))
           \<longleftrightarrow> \<not> bcrypt_compare e t1 (bcrypt_hash e (refreshToken toks) 10 salt)"
proof -
  from refresh_accepts[OF assms(1-8), of now salt] assms(9)
  have st2: "st2 = updateRefreshToken e salt req (user_id u) (refreshToken toks) st"
    by auto
  from assms(4) have "getOne (filter (\<lambda>u. user_id u = uid) (getBaseQuery req st)) = Some u"
    by (simp add: findById_def)
  from getOne_filter[OF this] have uid: "user_id u = uid" by simp
  from findById_after_rotation[OF assms(4), of e salt "refreshToken toks"] assms(10)
  have f: "findById req uid st2
      = Some (u\<lparr>refresh_record := Some (bcrypt_hash e (refreshToken toks) 10 salt)\<rparr>)"
    unfolding st2 uid by simp
  show ?thesis
    using assms(1-3,8,11) f
    by (simp add: controller_refreshTokens_def refreshTokens_def generateTokens_secret)
qed

text \<open>
  Claim C4 fails on the code: after a rotation a refresh token must refresh exactly once.
  A refresh in the second of the login mints the very token again, so alice's token
  refreshes a second time; and dora's first refresh token, replaced at time 9 by a token
  that agrees with it on the first 72 bytes, is accepted again at time 12.
\<close>

theorem rotated_refresh_token_replayed:
  "fst (controller_refreshTokens sample_ext sample_config 5 ''NaCl'' (anonymous 1)
          ''jwt.1.alice@acme.io.5.65|k3y'' logged_in_store)
     = Inr \<lparr>accessToken = ''jwt.1.alice@acme.io.5.20|k3y'',
            refreshToken = ''jwt.1.alice@acme.io.5.65|k3y''\<rparr>
   \<and> fst (controller_refreshTokens sample_ext sample_config 9 ''NaCl'' (anonymous 1)
          ''jwt.1.alice@acme.io.5.65|k3y''
          (snd (controller_refreshTokens sample_ext sample_config 5 ''NaCl'' (anonymous 1)
                  ''jwt.1.alice@acme.io.5.65|k3y'' logged_in_store)))
     = Inr \<lparr>accessToken = ''jwt.1.alice@acme.io.9.24|k3y'',
            refreshToken = ''jwt.1.alice@acme.io.9.69|k3y''\<rparr>
   \<and> fst (controller_refreshTokens sample_ext sample_config 9 ''NaCl'' (anonymous 1)
         ''jwt.4.dora.with.a.rather.long.mailbox.name@warehouse.subsidiary.acme.example.5.65|k3y''
         long_logged_in_store)
     = Inr \<lparr>accessToken =
         ''jwt.4.dora.with.a.rather.long.mailbox.name@warehouse.subsidiary.acme.example.9.24|k3y'',
            refreshToken =
         ''jwt.4.dora.with.a.rather.long.mailbox.name@warehouse.subsidiary.acme.example.9.69|k3y''\<rparr>
   \<and> \<not> isl (fst (controller_refreshTokens sample_ext sample_config 12 ''NaCl'' (anonymous 1)
         ''jwt.4.dora.with.a.rather.long.mailbox.name@warehouse.subsidiary.acme.example.5.65|k3y''
         (snd (controller_refreshTokens sample_ext sample_config 9 ''NaCl'' (anonymous 1)
           ''jwt.4.dora.with.a.rather.long.mailbox.name@warehouse.subsidiary.acme.example.5.65|k3y''
           long_logged_in_store))))"
  by code_simp

end
